theory Spec2Isabelle
  imports Main "HOL-Library.Word"
begin

unbundle bit_operations_syntax

section \<open>JavaScript values\<close>

text \<open>
  The session manager of \<^verbatim>\<open>src/context/AuthContext.tsx\<close> handles untyped data: the row
  that the remote store returns is \<^verbatim>\<open>any\<close>, and so is the result of \<^verbatim>\<open>JSON.parse\<close>.
  The model therefore works on JavaScript values. A string is a list of UTF-16 code
  units. A number is represented by the string that \<^verbatim>\<open>Number::toString\<close> gives for it:
  \<^verbatim>\<open>Infinity\<close>, \<^verbatim>\<open>-Infinity\<close>, \<^verbatim>\<open>NaN\<close>, or the shortest decimal that reads back as the same
  double, with \<^verbatim>\<open>0\<close> for both zeros. The conversion from a number literal to the double
  it denotes is no part of the model: where \<^verbatim>\<open>JSON.parse\<close> needs it, it is a parameter. An
  object is the list of its own properties in insertion order.
\<close>

type_synonym jschar = "16 word"
type_synonym jsstring = "jschar list"

definition str :: "string \<Rightarrow> jsstring" where
  "str s = map (\<lambda>c. of_nat (of_char c)) s"

datatype jsval =
    JUndefined
  | JNull
  | JBool bool
  | JNum jsstring
  | JStr jsstring
  | JArr "jsval list"
  | JObj "(jsstring \<times> jsval) list"

datatype exn = TypeError | SyntaxError | QuotaExceededError | Rejection jsval

datatype 'a completion = Normal 'a | Throw exn

definition is_digit :: "jschar \<Rightarrow> bool" where
  "is_digit c \<longleftrightarrow> 0x30 \<le> c \<and> c \<le> 0x39"

text \<open>The numbers that are not finite.\<close>

definition non_finite :: "jsstring \<Rightarrow> bool" where
  "non_finite n \<longleftrightarrow> n = str ''Infinity'' \<or> n = str ''-Infinity'' \<or> n = str ''NaN''"

text \<open>\<^verbatim>\<open>ToBoolean\<close>: what \<^verbatim>\<open>if (x)\<close> and \<^verbatim>\<open>x && y\<close> test.\<close>

fun truthy :: "jsval \<Rightarrow> bool" where
  "truthy JUndefined = False"
| "truthy JNull = False"
| "truthy (JBool b) = b"
| "truthy (JNum n) = (n \<noteq> str ''0'' \<and> n \<noteq> str ''NaN'')"
| "truthy (JStr s) = (s \<noteq> [])"
| "truthy (JArr vs) = True"
| "truthy (JObj ps) = True"

fun nullish :: "jsval \<Rightarrow> bool" where
  "nullish JUndefined = True"
| "nullish JNull = True"
| "nullish v = False"

text \<open>
  Reading a property \<^verbatim>\<open>v.k\<close> of a value that is neither \<^verbatim>\<open>null\<close> nor \<^verbatim>\<open>undefined\<close>. An
  object yields the latest binding of the key, or \<^verbatim>\<open>undefined\<close>. The names read by the
  session manager (\<^verbatim>\<open>id\<close>, \<^verbatim>\<open>name\<close>, \<^verbatim>\<open>username\<close>, \<^verbatim>\<open>role\<close>, \<^verbatim>\<open>created_at\<close>, \<^verbatim>\<open>password\<close>,
  \<^verbatim>\<open>code\<close>) are no built-in property of a primitive or of an array, so those yield
  \<^verbatim>\<open>undefined\<close>. On \<^verbatim>\<open>null\<close> and \<^verbatim>\<open>undefined\<close> the read throws a \<^verbatim>\<open>TypeError\<close>; callers test
  \<open>nullish\<close> first.
\<close>

fun get_prop :: "jsval \<Rightarrow> jsstring \<Rightarrow> jsval" where
  "get_prop (JObj ps) k = (case map_of (rev ps) k of None \<Rightarrow> JUndefined | Some v \<Rightarrow> v)"
| "get_prop v k = JUndefined"

text \<open>Joining strings with commas, as \<^verbatim>\<open>Array.prototype.join\<close> and the JSON serialiser do.\<close>

fun join :: "jsstring list \<Rightarrow> jsstring" where
  "join [] = []"
| "join [x] = x"
| "join (x # y # zs) = x @ 0x2C # join (y # zs)"

text \<open>
  \<^verbatim>\<open>ToString\<close>, which a template literal applies to its substitutions. An array joins
  the strings of its elements, with the empty string for \<^verbatim>\<open>null\<close> and \<^verbatim>\<open>undefined\<close>. A plain
  object without an own property \<^verbatim>\<open>toString\<close> inherits the method that answers
  \<^verbatim>\<open>[object Object]\<close>. An own property \<^verbatim>\<open>toString\<close> of a value decoded from JSON is never a
  function; then \<^verbatim>\<open>valueOf\<close>, own or inherited, yields no primitive either, and the
  conversion throws a \<^verbatim>\<open>TypeError\<close>.
\<close>

fun ToString :: "jsval \<Rightarrow> jsstring completion"
  and ToString_elements :: "jsval list \<Rightarrow> jsstring list completion"
where
  "ToString JUndefined = Normal (str ''undefined'')"
| "ToString JNull = Normal (str ''null'')"
| "ToString (JBool b) = Normal (if b then str ''true'' else str ''false'')"
| "ToString (JNum n) = Normal n"
| "ToString (JStr s) = Normal s"
| "ToString (JArr vs) =
     (case ToString_elements vs of
        Throw e \<Rightarrow> Throw e
      | Normal ts \<Rightarrow> Normal (join ts))"
| "ToString (JObj ps) =
     (if str ''toString'' \<in> set (map fst ps) then Throw TypeError
      else Normal (str ''[object Object]''))"
| "ToString_elements [] = Normal []"
| "ToString_elements (v # vs) =
     (case (if nullish v then Normal [] else ToString v) of
        Throw e \<Rightarrow> Throw e
      | Normal t \<Rightarrow>
          (case ToString_elements vs of
             Throw e \<Rightarrow> Throw e
           | Normal ts \<Rightarrow> Normal (t # ts)))"

section \<open>JSON.stringify\<close>

text \<open>
  \<^verbatim>\<open>JSON.stringify\<close> with one argument, after ECMA-262: \<^verbatim>\<open>QuoteJSONString\<close>,
  \<^verbatim>\<open>SerializeJSONProperty\<close>, \<^verbatim>\<open>SerializeJSONArray\<close>, \<^verbatim>\<open>SerializeJSONObject\<close>. The result
  \<open>None\<close> is \<^verbatim>\<open>undefined\<close>. A finite number is written as \<^verbatim>\<open>Number::toString\<close> prints it,
  any other number as \<^verbatim>\<open>null\<close>. A property \<^verbatim>\<open>toJSON\<close> is called only when it is a function,
  which no value decoded from JSON holds.
\<close>

definition hex_digit :: "nat \<Rightarrow> jschar" where
  "hex_digit n = (if n < 10 then of_nat (48 + n) else of_nat (87 + n))"

definition unicode_escape :: "jschar \<Rightarrow> jsstring" where
  "unicode_escape c =
     [0x5C, 0x75, hex_digit (unat c div 4096), hex_digit (unat c div 256 mod 16),
      hex_digit (unat c div 16 mod 16), hex_digit (unat c mod 16)]"

definition is_high_surrogate :: "jschar \<Rightarrow> bool" where
  "is_high_surrogate c \<longleftrightarrow> 0xD800 \<le> c \<and> c \<le> 0xDBFF"

definition is_low_surrogate :: "jschar \<Rightarrow> bool" where
  "is_low_surrogate c \<longleftrightarrow> 0xDC00 \<le> c \<and> c \<le> 0xDFFF"

definition quote_unit :: "jschar \<Rightarrow> jsstring" where
  "quote_unit c =
     (if c = 0x08 then [0x5C, 0x62]
      else if c = 0x09 then [0x5C, 0x74]
      else if c = 0x0A then [0x5C, 0x6E]
      else if c = 0x0C then [0x5C, 0x66]
      else if c = 0x0D then [0x5C, 0x72]
      else if c = 0x22 then [0x5C, 0x22]
      else if c = 0x5C then [0x5C, 0x5C]
      else if c < 0x20 then unicode_escape c
      else [c])"

text \<open>A surrogate pair is copied; a lone surrogate is written as a four-digit hexadecimal escape.\<close>

fun quote_units :: "jsstring \<Rightarrow> jsstring" where
  "quote_units [] = []"
| "quote_units (c # cs) =
     (if is_high_surrogate c then
        (case cs of
           [] \<Rightarrow> unicode_escape c
         | d # ds \<Rightarrow>
             if is_low_surrogate d then c # d # quote_units ds
             else unicode_escape c @ quote_units cs)
      else if is_low_surrogate c then unicode_escape c @ quote_units cs
      else quote_unit c @ quote_units cs)"

definition QuoteJSONString :: "jsstring \<Rightarrow> jsstring" where
  "QuoteJSONString s = 0x22 # quote_units s @ [0x22]"

fun SerializeJSONProperty :: "jsval \<Rightarrow> jsstring option"
  and SerializeJSONArray :: "jsval list \<Rightarrow> jsstring list"
  and SerializeJSONObject :: "(jsstring \<times> jsval) list \<Rightarrow> jsstring list"
where
  "SerializeJSONProperty JUndefined = None"
| "SerializeJSONProperty JNull = Some (str ''null'')"
| "SerializeJSONProperty (JBool b) = Some (if b then str ''true'' else str ''false'')"
| "SerializeJSONProperty (JNum n) = Some (if non_finite n then str ''null'' else n)"
| "SerializeJSONProperty (JStr s) = Some (QuoteJSONString s)"
| "SerializeJSONProperty (JArr vs) = Some (0x5B # join (SerializeJSONArray vs) @ [0x5D])"
| "SerializeJSONProperty (JObj ps) = Some (0x7B # join (SerializeJSONObject ps) @ [0x7D])"
| "SerializeJSONArray [] = []"
| "SerializeJSONArray (v # vs) =
     (case SerializeJSONProperty v of None \<Rightarrow> str ''null'' | Some t \<Rightarrow> t)
       # SerializeJSONArray vs"
| "SerializeJSONObject [] = []"
| "SerializeJSONObject (p # ps) =
     (case SerializeJSONProperty (snd p) of
        None \<Rightarrow> SerializeJSONObject ps
      | Some t \<Rightarrow> (QuoteJSONString (fst p) @ 0x3A # t) # SerializeJSONObject ps)"

definition JSON_stringify :: "jsval \<Rightarrow> jsstring option" where
  "JSON_stringify v = SerializeJSONProperty v"

section \<open>JSON.parse\<close>

text \<open>
  \<^verbatim>\<open>JSON.parse\<close> with one argument: a recursive-descent reader of the JSON grammar of
  ECMA-404. The parameter \<open>number\<close> stands for the conversion of a number literal to the
  double nearest to it, given as that double is represented here: it maps \<^verbatim>\<open>1.0\<close> to \<^verbatim>\<open>1\<close>,
  \<^verbatim>\<open>1e400\<close> to \<^verbatim>\<open>Infinity\<close> and \<^verbatim>\<open>1e-400\<close> to \<^verbatim>\<open>0\<close>. Which texts are accepted does not depend
  on it. Each reader returns the value read and the rest of the text; \<open>None\<close> is the
  \<^verbatim>\<open>SyntaxError\<close> that \<^verbatim>\<open>JSON.parse\<close> throws. The members of an object are kept as the text
  lists them: a duplicate key stays twice and \<open>get_prop\<close> reads the latest, as the parsed
  object would; keys that look like array indices are not moved to the front.
\<close>

definition is_ws :: "jschar \<Rightarrow> bool" where
  "is_ws c \<longleftrightarrow> c = 0x20 \<or> c = 0x09 \<or> c = 0x0A \<or> c = 0x0D"

definition skip_ws :: "jsstring \<Rightarrow> jsstring" where
  "skip_ws s = dropWhile is_ws s"

fun scan_int :: "jsstring \<Rightarrow> (jsstring \<times> jsstring) option" where
  "scan_int [] = None"
| "scan_int (c # cs) =
     (if c = 0x30 then Some ([c], cs)
      else if is_digit c then Some (c # takeWhile is_digit cs, dropWhile is_digit cs)
      else None)"

fun scan_frac :: "jsstring \<Rightarrow> (jsstring \<times> jsstring) option" where
  "scan_frac [] = Some ([], [])"
| "scan_frac (c # cs) =
     (if c = 0x2E then
        (if takeWhile is_digit cs = [] then None
         else Some (c # takeWhile is_digit cs, dropWhile is_digit cs))
      else Some ([], c # cs))"

fun scan_exp :: "jsstring \<Rightarrow> (jsstring \<times> jsstring) option" where
  "scan_exp [] = Some ([], [])"
| "scan_exp (c # cs) =
     (if c = 0x65 \<or> c = 0x45 then
        (case cs of
           [] \<Rightarrow> None
         | d # ds \<Rightarrow>
             if d = 0x2B \<or> d = 0x2D then
               (if takeWhile is_digit ds = [] then None
                else Some (c # d # takeWhile is_digit ds, dropWhile is_digit ds))
             else if takeWhile is_digit cs = [] then None
             else Some (c # takeWhile is_digit cs, dropWhile is_digit cs))
      else Some ([], c # cs))"

definition scan_unsigned :: "jsstring \<Rightarrow> (jsstring \<times> jsstring) option" where
  "scan_unsigned s =
     (case scan_int s of
        None \<Rightarrow> None
      | Some (i, s1) \<Rightarrow>
          (case scan_frac s1 of
             None \<Rightarrow> None
           | Some (f, s2) \<Rightarrow>
               (case scan_exp s2 of
                  None \<Rightarrow> None
                | Some (e, s3) \<Rightarrow> Some (i @ f @ e, s3))))"

fun scan_number :: "jsstring \<Rightarrow> (jsstring \<times> jsstring) option" where
  "scan_number [] = None"
| "scan_number (c # cs) =
     (if c = 0x2D then
        (case scan_unsigned cs of None \<Rightarrow> None | Some (n, r) \<Rightarrow> Some (c # n, r))
      else scan_unsigned (c # cs))"

definition hex_val :: "jschar \<Rightarrow> nat option" where
  "hex_val c =
     (if 0x30 \<le> c \<and> c \<le> 0x39 then Some (unat c - 48)
      else if 0x61 \<le> c \<and> c \<le> 0x66 then Some (unat c - 87)
      else if 0x41 \<le> c \<and> c \<le> 0x46 then Some (unat c - 55)
      else None)"

definition hex4 :: "jschar \<Rightarrow> jschar \<Rightarrow> jschar \<Rightarrow> jschar \<Rightarrow> jschar option" where
  "hex4 a b c d =
     (case hex_val a of
        None \<Rightarrow> None
      | Some w \<Rightarrow>
          (case hex_val b of
             None \<Rightarrow> None
           | Some x \<Rightarrow>
               (case hex_val c of
                  None \<Rightarrow> None
                | Some y \<Rightarrow>
                    (case hex_val d of
                       None \<Rightarrow> None
                     | Some z \<Rightarrow> Some (of_nat (((w * 16 + x) * 16 + y) * 16 + z))))))"

definition unescape :: "jschar \<Rightarrow> jschar option" where
  "unescape e =
     (if e = 0x22 \<or> e = 0x5C \<or> e = 0x2F then Some e
      else if e = 0x62 then Some 0x08
      else if e = 0x66 then Some 0x0C
      else if e = 0x6E then Some 0x0A
      else if e = 0x72 then Some 0x0D
      else if e = 0x74 then Some 0x09
      else None)"

text \<open>The characters of a string literal, after its opening quote, up to the closing one.\<close>

fun scan_chars :: "jsstring \<Rightarrow> (jsstring \<times> jsstring) option" where
  "scan_chars [] = None"
| "scan_chars (c # cs) =
     (if c = 0x22 then Some ([], cs)
      else if c = 0x5C then
        (case cs of
           [] \<Rightarrow> None
         | e # es \<Rightarrow>
             if e = 0x75 then
               (case es of
                  h1 # h2 # h3 # h4 # r \<Rightarrow>
                    (case hex4 h1 h2 h3 h4 of
                       None \<Rightarrow> None
                     | Some u \<Rightarrow>
                         (case scan_chars r of
                            None \<Rightarrow> None
                          | Some (t, r') \<Rightarrow> Some (u # t, r')))
                | _ \<Rightarrow> None)
             else
               (case unescape e of
                  None \<Rightarrow> None
                | Some x \<Rightarrow>
                    (case scan_chars es of
                       None \<Rightarrow> None
                     | Some (t, r') \<Rightarrow> Some (x # t, r'))))
      else if c < 0x20 then None
      else (case scan_chars cs of None \<Rightarrow> None | Some (t, r') \<Rightarrow> Some (c # t, r')))"

lemma skip_ws_Cons_length: "skip_ws s = c # cs \<Longrightarrow> length cs < length s"
  using length_dropWhile_le [of is_ws s] by (simp add: skip_ws_def)

lemma scan_chars_length: "scan_chars s = Some (t, r) \<Longrightarrow> length r < length s"
proof (induction "length s" arbitrary: s t r rule: less_induct)
  case less
  show ?case
  proof (cases s)
    case Nil
    with less.prems show ?thesis by simp
  next
    case (Cons c cs)
    have IH: "scan_chars s' = Some (t', r') \<Longrightarrow> length s' < length s \<Longrightarrow> length r' < length s'"
      for s' t' r'
      using less.hyps by blast
    from less.prems Cons show ?thesis
      by (fastforce split: if_splits list.splits option.splits dest: IH)
  qed
qed

text \<open>
  The readers of values, of the elements of an array after its opening bracket, and of
  the members of an object after its opening brace. A nested reader always consumes
  text; the tests on the length of the rest say so where the recursion needs it.
\<close>

function parse_value :: "(jsstring \<Rightarrow> jsstring) \<Rightarrow> jsstring \<Rightarrow> (jsval \<times> jsstring) option"
  and parse_elements ::
    "(jsstring \<Rightarrow> jsstring) \<Rightarrow> jsstring \<Rightarrow> (jsval list \<times> jsstring) option"
  and parse_members ::
    "(jsstring \<Rightarrow> jsstring) \<Rightarrow> jsstring \<Rightarrow> ((jsstring \<times> jsval) list \<times> jsstring) option"
where
  "parse_value number s =
     (case skip_ws s of
        [] \<Rightarrow> None
      | c # cs \<Rightarrow>
          if c = 0x7B then
            (case skip_ws cs of
               [] \<Rightarrow> None
             | d # ds \<Rightarrow>
                 if d = 0x7D then Some (JObj [], ds)
                 else (case parse_members number cs of
                         None \<Rightarrow> None
                       | Some (ps, r) \<Rightarrow> Some (JObj ps, r)))
          else if c = 0x5B then
            (case skip_ws cs of
               [] \<Rightarrow> None
             | d # ds \<Rightarrow>
                 if d = 0x5D then Some (JArr [], ds)
                 else (case parse_elements number cs of
                         None \<Rightarrow> None
                       | Some (vs, r) \<Rightarrow> Some (JArr vs, r)))
          else if c = 0x22 then
            (case scan_chars cs of None \<Rightarrow> None | Some (t, r) \<Rightarrow> Some (JStr t, r))
          else if c = 0x2D \<or> is_digit c then
            (case scan_number (c # cs) of None \<Rightarrow> None | Some (n, r) \<Rightarrow> Some (JNum (number n), r))
          else if take 4 (c # cs) = str ''true'' then Some (JBool True, drop 4 (c # cs))
          else if take 5 (c # cs) = str ''false'' then Some (JBool False, drop 5 (c # cs))
          else if take 4 (c # cs) = str ''null'' then Some (JNull, drop 4 (c # cs))
          else None)"
| "parse_elements number s =
     (case parse_value number s of
        None \<Rightarrow> None
      | Some (v, r) \<Rightarrow>
          if length r < length s then
            (case skip_ws r of
               [] \<Rightarrow> None
             | c # cs \<Rightarrow>
                 if c = 0x2C then
                   (case parse_elements number cs of
                      None \<Rightarrow> None
                    | Some (vs, r') \<Rightarrow> Some (v # vs, r'))
                 else if c = 0x5D then Some ([v], cs)
                 else None)
          else None)"
| "parse_members number s =
     (case skip_ws s of
        [] \<Rightarrow> None
      | q # s1 \<Rightarrow>
          if q = 0x22 then
            (case scan_chars s1 of
               None \<Rightarrow> None
             | Some (k, s2) \<Rightarrow>
                 (case skip_ws s2 of
                    [] \<Rightarrow> None
                  | c # s3 \<Rightarrow>
                      if c = 0x3A then
                        (case parse_value number s3 of
                           None \<Rightarrow> None
                         | Some (v, r) \<Rightarrow>
                             if length r < length s3 then
                               (case skip_ws r of
                                  [] \<Rightarrow> None
                                | d # ds \<Rightarrow>
                                    if d = 0x2C then
                                      (case parse_members number ds of
                                         None \<Rightarrow> None
                                       | Some (ps, r') \<Rightarrow> Some ((k, v) # ps, r'))
                                    else if d = 0x7D then Some ([(k, v)], ds)
                                    else None)
                             else None)
                      else None))
          else None)"
  by pat_completeness auto
termination
  by (relation "measure (\<lambda>x. case x of
            Inl (number, s) \<Rightarrow> 2 * length s
          | Inr (Inl (number, s)) \<Rightarrow> 2 * length s + 1
          | Inr (Inr (number, s)) \<Rightarrow> 2 * length s + 1)")
     (auto dest!: skip_ws_Cons_length scan_chars_length)

declare parse_value.simps [simp del] parse_elements.simps [simp del]
  parse_members.simps [simp del]

definition JSON_parse :: "(jsstring \<Rightarrow> jsstring) \<Rightarrow> jsstring \<Rightarrow> jsval option" where
  "JSON_parse number s =
     (case parse_value number s of
        None \<Rightarrow> None
      | Some (v, r) \<Rightarrow> if skip_ws r = [] then Some v else None)"

section \<open>The session manager\<close>

text \<open>
  Two sources are modelled: \<^verbatim>\<open>src/context/AuthContext.tsx\<close> and the unnamed variant
  \<^verbatim>\<open>part_000\<close> of the same file, whose \<^verbatim>\<open>login\<close> and \<^verbatim>\<open>signup\<close> differ. Definitions
  of the variant carry the suffix \<open>_part_000\<close>.

  The state holds what the component owns (the React state \<^verbatim>\<open>user\<close> and \<^verbatim>\<open>isLoading\<close>, and
  \<^verbatim>\<open>localStorage\<close>) and what it emits: the requests sent to the remote store, the toasts
  and the console log. The answers of the remote store are inputs, and so is the answer
  of the browser to a write into \<^verbatim>\<open>localStorage\<close>. One call runs from start to end;
  interleaved calls are outside the model.
\<close>

text \<open>
  What \<^verbatim>\<open>await supabase.from('users')...\<close> yields: the promise rejects, or it resolves to
  an object whose \<^verbatim>\<open>data\<close> and \<^verbatim>\<open>error\<close> the code destructures.
\<close>

datatype response = Resolves jsval jsval | Rejects jsval

datatype request =
    SelectSingle jsstring jsstring
  | Insert jsval
  | InsertSelectSingle jsval

text \<open>
  What \<^verbatim>\<open>localStorage.setItem\<close> does with a write: it stores the value, or it throws a
  \<^verbatim>\<open>QuotaExceededError\<close> and stores nothing. Which of the two is for the browser to say, so
  it is an input as well.
\<close>

datatype storage_write = Accepted | Refused

datatype toast = Toast_error jsstring | Toast_success jsstring

datatype log = Console_error jsstring jsval | Console_caught jsstring exn

record session =
  user :: jsval
  isLoading :: bool
  localStorage :: "jsstring \<rightharpoonup> jsstring"
  requests :: "request list"
  toasts :: "toast list"
  console :: "log list"

definition tobaku_user :: jsstring where
  "tobaku_user = str ''tobaku_user''"

definition setUser :: "jsval \<Rightarrow> session \<Rightarrow> session" where
  "setUser v st = st\<lparr>user := v\<rparr>"

definition setIsLoading :: "bool \<Rightarrow> session \<Rightarrow> session" where
  "setIsLoading b st = st\<lparr>isLoading := b\<rparr>"

definition send :: "request \<Rightarrow> session \<Rightarrow> session" where
  "send q st = st\<lparr>requests := requests st @ [q]\<rparr>"

definition toast_error :: "string \<Rightarrow> session \<Rightarrow> session" where
  "toast_error m st = st\<lparr>toasts := toasts st @ [Toast_error (str m)]\<rparr>"

definition toast_success :: "jsstring \<Rightarrow> session \<Rightarrow> session" where
  "toast_success m st = st\<lparr>toasts := toasts st @ [Toast_success m]\<rparr>"

definition console_error :: "string \<Rightarrow> jsval \<Rightarrow> session \<Rightarrow> session" where
  "console_error m v st = st\<lparr>console := console st @ [Console_error (str m) v]\<rparr>"

definition console_caught :: "string \<Rightarrow> exn \<Rightarrow> session \<Rightarrow> session" where
  "console_caught m e st = st\<lparr>console := console st @ [Console_caught (str m) e]\<rparr>"

text \<open>The value is converted to a string: \<^verbatim>\<open>undefined\<close> becomes the text \<^verbatim>\<open>undefined\<close>.\<close>

definition setItem ::
  "storage_write \<Rightarrow> jsstring \<Rightarrow> jsstring option \<Rightarrow> session \<Rightarrow> unit completion \<times> session" where
  "setItem w k v st =
     (case w of
        Refused \<Rightarrow> (Throw QuotaExceededError, st)
      | Accepted \<Rightarrow>
          (Normal (),
           st\<lparr>localStorage := (localStorage st)
              (k \<mapsto> (case v of None \<Rightarrow> str ''undefined'' | Some t \<Rightarrow> t))\<rparr>))"

definition removeItem :: "jsstring \<Rightarrow> session \<Rightarrow> session" where
  "removeItem k st = st\<lparr>localStorage := (localStorage st)(k := None)\<rparr>"

subsection \<open>Mounting the provider and the restore effect\<close>

text \<open>\<^verbatim>\<open>useState(null)\<close> and \<^verbatim>\<open>useState(true)\<close>, over the storage the browser holds.\<close>

definition mount :: "(jsstring \<rightharpoonup> jsstring) \<Rightarrow> session" where
  "mount storage =
     \<lparr>user = JNull, isLoading = True, localStorage = storage,
      requests = [], toasts = [], console = []\<rparr>"

text \<open>The body of the \<^verbatim>\<open>try\<close> block of the effect (lines 33 and 34).\<close>

definition restore_try ::
  "(jsstring \<Rightarrow> jsstring) \<Rightarrow> jsstring \<Rightarrow> session \<Rightarrow> unit completion \<times> session" where
  "restore_try number savedUser st =
     (case JSON_parse number savedUser of
        None \<Rightarrow> (Throw SyntaxError, st)
      | Some parsedUser \<Rightarrow> (Normal (), setUser parsedUser st))"

text \<open>
  The effect (lines 28 to 41). \<^verbatim>\<open>getItem\<close> yields \<^verbatim>\<open>null\<close> for a missing key;
  \<^verbatim>\<open>if (savedUser)\<close> is false for \<^verbatim>\<open>null\<close> and for the empty string. \<open>number\<close> is the
  parameter of \<open>JSON_parse\<close>.
\<close>

definition startup_restore ::
  "(jsstring \<Rightarrow> jsstring) \<Rightarrow> session \<Rightarrow> unit completion \<times> session" where
  "startup_restore number st =
     (let st1 =
        (case localStorage st tobaku_user of
           None \<Rightarrow> st
         | Some savedUser \<Rightarrow>
             if savedUser \<noteq> [] then
               (case restore_try number savedUser st of
                  (Normal u, st') \<Rightarrow> st'
                | (Throw e, st') \<Rightarrow>
                    removeItem tobaku_user
                      (console_caught ''Error parsing saved user:'' e st'))
             else st)
      in (Normal (), setIsLoading False st1))"

subsection \<open>login\<close>

text \<open>The object literal of lines 67 to 73.\<close>

definition userData :: "jsval \<Rightarrow> jsval" where
  "userData users =
     JObj [(str ''id'', get_prop users (str ''id'')),
           (str ''name'', get_prop users (str ''name'')),
           (str ''username'', get_prop users (str ''username'')),
           (str ''role'', get_prop users (str ''role'')),
           (str ''created_at'', get_prop users (str ''created_at''))]"

text \<open>
  The body of the \<^verbatim>\<open>try\<close> block of \<^verbatim>\<open>login\<close> in \<^verbatim>\<open>AuthContext.tsx\<close> (lines 45 to 82).
  \<^verbatim>\<open>users.password\<close> throws when \<^verbatim>\<open>users\<close> is \<^verbatim>\<open>null\<close> or \<^verbatim>\<open>undefined\<close>; \<^verbatim>\<open>===\<close> against a
  string holds for an equal string only. After \<^verbatim>\<open>setUser\<close> (line 75) two more statements can
  throw: \<^verbatim>\<open>localStorage.setItem\<close> (line 76), when the browser refuses the write \<open>w\<close>, and
  the template literal of the welcome message (line 77), when the name has no string.
\<close>

definition login_try ::
  "response \<Rightarrow> storage_write \<Rightarrow> jsstring \<Rightarrow> jsstring \<Rightarrow> session \<Rightarrow>
     bool completion \<times> session" where
  "login_try resp w username password st =
     (let st1 = send (SelectSingle (str ''*'') username) (setIsLoading True st) in
      case resp of
        Rejects reason \<Rightarrow> (Throw (Rejection reason), st1)
      | Resolves users error \<Rightarrow>
          if truthy error then
            (if get_prop error (str ''code'') = JStr (str ''PGRST116'') then
               (Normal False, toast_error ''Username tidak ditemukan'' st1)
             else
               (Normal False,
                toast_error ''Terjadi kesalahan saat login''
                  (console_error ''Login error:'' error st1)))
          else if nullish users then (Throw TypeError, st1)
          else
            (let isValidPassword = (get_prop users (str ''password'') = JStr password) in
             if truthy users \<and> isValidPassword then
               (let st2 = setUser (userData users) st1 in
                case setItem w tobaku_user (JSON_stringify (userData users)) st2 of
                  (Throw e, st3) \<Rightarrow> (Throw e, st3)
                | (Normal u, st3) \<Rightarrow>
                    (case ToString (get_prop (userData users) (str ''name'')) of
                       Throw e \<Rightarrow> (Throw e, st3)
                     | Normal name \<Rightarrow>
                         (Normal True,
                          toast_success (str ''Selamat datang, '' @ name @ str ''!'') st3)))
             else (Normal False, toast_error ''Password salah'' st1)))"

text \<open>\<^verbatim>\<open>try\<close>, \<^verbatim>\<open>catch\<close> and \<^verbatim>\<open>finally\<close> of \<^verbatim>\<open>login\<close> (lines 44 and 84 to 90).\<close>

definition login ::
  "response \<Rightarrow> storage_write \<Rightarrow> jsstring \<Rightarrow> jsstring \<Rightarrow> session \<Rightarrow>
     bool completion \<times> session" where
  "login resp w username password st =
     (case login_try resp w username password st of
        (Normal b, st') \<Rightarrow> (Normal b, setIsLoading False st')
      | (Throw e, st') \<Rightarrow>
          (Normal False,
           setIsLoading False
             (toast_error ''Terjadi kesalahan saat login''
                (console_caught ''Login error:'' e st'))))"

text \<open>
  \<^verbatim>\<open>login\<close> of the variant \<^verbatim>\<open>part_000\<close> (lines 43 to 86): the password test compares the
  arguments with two fixed pairs and never reads the row. \<^verbatim>\<open>setItem\<close> (line 74) follows
  \<^verbatim>\<open>setUser\<close> (line 73) here too; there is no welcome message.
\<close>

definition login_try_part_000 ::
  "response \<Rightarrow> storage_write \<Rightarrow> jsstring \<Rightarrow> jsstring \<Rightarrow> session \<Rightarrow>
     bool completion \<times> session" where
  "login_try_part_000 resp w username password st =
     (let st1 = send (SelectSingle (str ''*'') username) (setIsLoading True st) in
      case resp of
        Rejects reason \<Rightarrow> (Throw (Rejection reason), st1)
      | Resolves users error \<Rightarrow>
          if truthy error then (Normal False, console_error ''Login error:'' error st1)
          else
            (let isValidPassword =
                   ((username = str ''admin'' \<and> password = str ''admin123'') \<or>
                    (username = str ''staff'' \<and> password = str ''staff123'')) in
             if truthy users \<and> isValidPassword then
               (let st2 = setUser (userData users) st1 in
                case setItem w tobaku_user (JSON_stringify (userData users)) st2 of
                  (Throw e, st3) \<Rightarrow> (Throw e, st3)
                | (Normal u, st3) \<Rightarrow> (Normal True, st3))
             else (Normal False, st1)))"

definition login_part_000 ::
  "response \<Rightarrow> storage_write \<Rightarrow> jsstring \<Rightarrow> jsstring \<Rightarrow> session \<Rightarrow>
     bool completion \<times> session" where
  "login_part_000 resp w username password st =
     (case login_try_part_000 resp w username password st of
        (Normal b, st') \<Rightarrow> (Normal b, setIsLoading False st')
      | (Throw e, st') \<Rightarrow>
          (Normal False,
           setIsLoading False
             (toast_error ''Terjadi kesalahan saat login''
                (console_caught ''Login error:'' e st'))))"

subsection \<open>signup\<close>

datatype role = Admin | Staff

fun role_string :: "role \<Rightarrow> jsstring" where
  "role_string Admin = str ''admin''"
| "role_string Staff = str ''staff''"

text \<open>The argument of \<^verbatim>\<open>signup\<close>, as its TypeScript type gives it.\<close>

record signup_data =
  name :: jsstring
  username :: jsstring
  password :: jsstring
  role :: role

text \<open>The row of lines 112 to 117.\<close>

definition new_row :: "signup_data \<Rightarrow> jsval" where
  "new_row d =
     JObj [(str ''name'', JStr (name d)),
           (str ''username'', JStr (username d)),
           (str ''password'', JStr (password d)),
           (str ''role'', JStr (role_string (role d)))]"

text \<open>
  The body of the \<^verbatim>\<open>try\<close> block of \<^verbatim>\<open>signup\<close> (lines 95 to 126). \<open>existing\<close> answers the
  query for the username; \<open>inserted\<close> answers the insert, when it is sent.
\<close>

definition signup_try ::
  "response \<Rightarrow> response \<Rightarrow> signup_data \<Rightarrow> session \<Rightarrow> bool completion \<times> session" where
  "signup_try existing inserted d st =
     (let st1 = send (SelectSingle (str ''username'') (username d)) (setIsLoading True st) in
      case existing of
        Rejects reason \<Rightarrow> (Throw (Rejection reason), st1)
      | Resolves existingUser checkError \<Rightarrow>
          if truthy existingUser then
            (Normal False, toast_error ''Username sudah digunakan'' st1)
          else
            (let st2 = send (Insert (new_row d)) st1 in
             case inserted of
               Rejects reason \<Rightarrow> (Throw (Rejection reason), st2)
             | Resolves newUser insertError \<Rightarrow>
                 if truthy insertError then
                   (Normal False,
                    toast_error ''Gagal membuat akun''
                      (console_error ''Signup error:'' insertError st2))
                 else
                   (Normal True, toast_success (str ''Akun berhasil dibuat! Silakan login.'') st2)))"

definition signup ::
  "response \<Rightarrow> response \<Rightarrow> signup_data \<Rightarrow> session \<Rightarrow> bool completion \<times> session" where
  "signup existing inserted d st =
     (case signup_try existing inserted d st of
        (Normal b, st') \<Rightarrow> (Normal b, setIsLoading False st')
      | (Throw e, st') \<Rightarrow>
          (Normal False,
           setIsLoading False
             (toast_error ''Terjadi kesalahan saat membuat akun'' (console_caught ''Signup error:'' e st'))))"

text \<open>
  \<^verbatim>\<open>signup\<close> of the variant \<^verbatim>\<open>part_000\<close> (lines 88 to 131): the insert asks for the new
  row back.
\<close>

definition signup_try_part_000 ::
  "response \<Rightarrow> response \<Rightarrow> signup_data \<Rightarrow> session \<Rightarrow> bool completion \<times> session" where
  "signup_try_part_000 existing inserted d st =
     (let st1 = send (SelectSingle (str ''username'') (username d)) (setIsLoading True st) in
      case existing of
        Rejects reason \<Rightarrow> (Throw (Rejection reason), st1)
      | Resolves existingUser checkError \<Rightarrow>
          if truthy existingUser then
            (Normal False, toast_error ''Username sudah digunakan'' st1)
          else
            (let st2 = send (InsertSelectSingle (new_row d)) st1 in
             case inserted of
               Rejects reason \<Rightarrow> (Throw (Rejection reason), st2)
             | Resolves newUser insertError \<Rightarrow>
                 if truthy insertError then
                   (Normal False,
                    toast_error ''Gagal membuat akun''
                      (console_error ''Signup error:'' insertError st2))
                 else
                   (Normal True, toast_success (str ''Akun berhasil dibuat! Silakan login.'') st2)))"

definition signup_part_000 ::
  "response \<Rightarrow> response \<Rightarrow> signup_data \<Rightarrow> session \<Rightarrow> bool completion \<times> session" where
  "signup_part_000 existing inserted d st =
     (case signup_try_part_000 existing inserted d st of
        (Normal b, st') \<Rightarrow> (Normal b, setIsLoading False st')
      | (Throw e, st') \<Rightarrow>
          (Normal False,
           setIsLoading False
             (toast_error ''Terjadi kesalahan saat membuat akun'' (console_caught ''Signup error:'' e st'))))"

subsection \<open>logout\<close>

text \<open>Lines 136 to 139; the same in both sources.\<close>

definition logout :: "session \<Rightarrow> unit completion \<times> session" where
  "logout st = (Normal (), removeItem tobaku_user (setUser JNull st))"

section \<open>Predicates of the specification\<close>

text \<open>
  The invariant that section 3 of the specification states for the current user: it is
  absent, or a fully populated user with a non-empty \<^verbatim>\<open>username\<close> and a \<^verbatim>\<open>role\<close> among
  \<^verbatim>\<open>admin\<close> and \<^verbatim>\<open>staff\<close>. A field is populated when it is neither \<^verbatim>\<open>undefined\<close> nor
  \<^verbatim>\<open>null\<close>.
\<close>

definition valid_user :: "jsval \<Rightarrow> bool" where
  "valid_user v \<longleftrightarrow>
     \<not> nullish (get_prop v (str ''id'')) \<and>
     \<not> nullish (get_prop v (str ''name'')) \<and>
     \<not> nullish (get_prop v (str ''created_at'')) \<and>
     (case get_prop v (str ''username'') of JStr s \<Rightarrow> s \<noteq> [] | _ \<Rightarrow> False) \<and>
     (get_prop v (str ''role'') = JStr (str ''admin'') \<or>
      get_prop v (str ''role'') = JStr (str ''staff''))"

definition session_invariant :: "session \<Rightarrow> bool" where
  "session_invariant st \<longleftrightarrow> user st = JNull \<or> valid_user (user st)"

text \<open>
  The values that JSON text denotes, and that serialising and parsing give back: no
  \<^verbatim>\<open>undefined\<close> at any depth, and every number finite. A finite number prints as a JSON
  number literal whose nearest double it is, so \<open>number\<close> maps its text to itself.
\<close>

fun is_json :: "(jsstring \<Rightarrow> jsstring) \<Rightarrow> jsval \<Rightarrow> bool" where
  "is_json number JUndefined = False"
| "is_json number JNull = True"
| "is_json number (JBool b) = True"
| "is_json number (JNum n) =
     (\<not> non_finite n \<and> scan_number n = Some (n, []) \<and> number n = n)"
| "is_json number (JStr s) = True"
| "is_json number (JArr vs) = list_all (is_json number) vs"
| "is_json number (JObj ps) = list_all (\<lambda>p. is_json number (snd p)) ps"

section \<open>Properties\<close>

lemmas effects =
  setUser_def setIsLoading_def send_def toast_error_def toast_success_def
  console_error_def console_caught_def setItem_def removeItem_def

lemmas parse_eval =
  JSON_parse_def parse_value.simps parse_elements.simps parse_members.simps
  skip_ws_def is_ws_def is_digit_def scan_unsigned_def unescape_def hex4_def hex_val_def

lemma str_simps [simp]: "str [] = []" "str (c # cs) = of_nat (of_char c) # str cs"
  by (simp_all add: str_def)

lemma completion_cases: "c = Normal True \<or> c = Normal False \<or> (\<exists>e. c = Throw e)"
  by (cases c) auto

text \<open>
  The theorems hold for every conversion \<open>number\<close> of number literals. The closed
  instances below parse texts without a number literal, so no conversion is ever applied
  there; they pass the identity.
\<close>

subsection \<open>The readers consume text\<close>

text \<open>
  A reader that succeeds returns a rest shorter than its input, so the tests on the
  length in \<open>parse_elements\<close> and \<open>parse_members\<close> never fail: \<open>None\<close> is always a syntax
  error of the text.
\<close>

lemma scan_number_length: "scan_number s = Some (n, r) \<Longrightarrow> length r < length s"
proof -
  have d: "length (dropWhile is_digit xs) \<le> length xs" for xs
    by (rule length_dropWhile_le)
  have i: "scan_int s = Some (a, r) \<Longrightarrow> length r < length s" for s a r
    using d by (cases s) (auto split: if_splits simp add: less_Suc_eq_le)
  have f: "scan_frac s = Some (a, r) \<Longrightarrow> length r \<le> length s" for s a r
    using d by (cases s) (auto split: if_splits simp add: le_Suc_eq)
  have e: "scan_exp s = Some (a, r) \<Longrightarrow> length r \<le> length s" for s a r
    using d by (cases s; cases "tl s") (auto split: if_splits simp add: le_Suc_eq)
  have u: "scan_unsigned s = Some (a, r) \<Longrightarrow> length r < length s" for s a r
    by (auto simp add: scan_unsigned_def split: option.splits dest!: i f e)
  assume "scan_number s = Some (n, r)"
  then show ?thesis
    by (cases s) (auto split: if_splits option.splits dest!: u)
qed

lemma parse_shrinks:
  "parse_value number s = Some (v, r) \<Longrightarrow> length r < length s"
  "parse_elements number s = Some (vs, r) \<Longrightarrow> length r < length s"
  "parse_members number s = Some (ps, r) \<Longrightarrow> length r < length s"
proof (induction number s and number s and number s arbitrary: v r and vs r and ps r
       rule: parse_value_parse_elements_parse_members.induct)
  case (1 number s)
  from "1.prems" obtain c cs where sk: "skip_ws s = c # cs"
    by (subst (asm) parse_value.simps) (auto split: list.splits)
  note len = skip_ws_Cons_length [OF sk]
  have lit: "length (drop k (c # cs)) < length s" if "0 < k" for k
    using len that by simp
  show ?case
  proof (cases "c = 0x7B")
    case True
    with "1.prems" sk len "1.IH"(1) [OF sk True] show ?thesis
      by (subst (asm) parse_value.simps)
         (fastforce split: list.splits if_splits option.splits dest: skip_ws_Cons_length)
  next
    case F1: False
    show ?thesis
    proof (cases "c = 0x5B")
      case True
      with "1.prems" sk len F1 "1.IH"(2) [OF sk F1 True] show ?thesis
        by (subst (asm) parse_value.simps)
           (fastforce split: list.splits if_splits option.splits dest: skip_ws_Cons_length)
    next
      case F2: False
      with "1.prems" sk len F1 lit [of 4] lit [of 5] show ?thesis
        by (subst (asm) parse_value.simps)
           (auto split: if_splits option.splits simp del: scan_number.simps drop_Suc_Cons
                 dest!: scan_chars_length scan_number_length)
    qed
  qed
next
  case (2 number s)
  from "2.prems" obtain v r1 c cs where pv: "parse_value number s = Some (v, r1)"
    and g: "length r1 < length s" and sk: "skip_ws r1 = c # cs"
    by (subst (asm) parse_elements.simps) (auto split: list.splits if_splits option.splits)
  note len = skip_ws_Cons_length [OF sk]
  show ?case
  proof (cases "c = 0x2C")
    case True
    with "2.prems" pv g sk len "2.IH"(2) [OF pv refl g sk True] show ?thesis
      by (subst (asm) parse_elements.simps) (fastforce split: option.splits)
  next
    case False
    with "2.prems" pv g sk len show ?thesis
      by (subst (asm) parse_elements.simps) (auto split: if_splits)
  qed
next
  case (3 number s)
  from "3.prems" obtain q s1 k s2 c s3 v r1 d ds where sk: "skip_ws s = q # s1"
    and q: "q = 0x22" and sc: "scan_chars s1 = Some (k, s2)" and sk2: "skip_ws s2 = c # s3"
    and c: "c = 0x3A" and pv: "parse_value number s3 = Some (v, r1)" and g: "length r1 < length s3"
    and sk3: "skip_ws r1 = d # ds"
    by (subst (asm) parse_members.simps) (auto split: list.splits if_splits option.splits)
  have len: "length ds < length s"
    using skip_ws_Cons_length [OF sk] scan_chars_length [OF sc] skip_ws_Cons_length [OF sk2] g
      skip_ws_Cons_length [OF sk3]
    by simp
  show ?case
  proof (cases "d = 0x2C")
    case True
    with "3.prems" sk q sc sk2 c pv g sk3 len
      "3.IH"(2) [OF sk q sc refl sk2 c pv refl g sk3 True] show ?thesis
      by (subst (asm) parse_members.simps) (fastforce split: option.splits)
  next
    case False
    with "3.prems" sk q sc sk2 c pv g sk3 len show ?thesis
      by (subst (asm) parse_members.simps) (auto split: if_splits)
  qed
qed

subsection \<open>Serialised text parses back\<close>

text \<open>
  A serialised value is followed by the end of the text, a comma, or a closing bracket
  or brace; before such a rest the reader returns the value and stops.
\<close>

definition delimited :: "jsstring \<Rightarrow> bool" where
  "delimited r = (case r of [] \<Rightarrow> True | c # cs \<Rightarrow> c = 0x2C \<or> c = 0x5D \<or> c = 0x7D)"

definition value_start :: "jsstring \<Rightarrow> bool" where
  "value_start t = (case t of [] \<Rightarrow> False | c # cs \<Rightarrow> \<not> is_ws c \<and> c \<noteq> 0x5D)"

definition round_trips :: "(jsstring \<Rightarrow> jsstring) \<Rightarrow> jsval \<Rightarrow> bool" where
  "round_trips number v \<longleftrightarrow>
     (\<exists>t. SerializeJSONProperty v = Some t \<and> value_start t \<and>
          (\<forall>r. delimited r \<longrightarrow> parse_value number (t @ r) = Some (v, r)))"

lemma nibbles:
  "((n div 4096 * 16 + n div 256 mod 16) * 16 + n div 16 mod 16) * 16 + n mod 16 = (n::nat)"
proof -
  have a: "n div 16 * 16 + n mod 16 = n"
    by simp
  have b: "n div 256 * 16 + n div 16 mod 16 = n div 16"
    using div_mult_mod_eq [of "n div 16" 16] by (simp add: div_mult2_eq [symmetric])
  have c: "n div 4096 * 16 + n div 256 mod 16 = n div 256"
    using div_mult_mod_eq [of "n div 256" 16] by (simp add: div_mult2_eq [symmetric])
  show ?thesis
    by (simp only: c b a)
qed

lemma hex_val_hex_digit: "k < 16 \<Longrightarrow> hex_val (hex_digit k) = Some k"
proof -
  assume "k < 16"
  then have "k = 0 \<or> k = 1 \<or> k = 2 \<or> k = 3 \<or> k = 4 \<or> k = 5 \<or> k = 6 \<or> k = 7 \<or>
             k = 8 \<or> k = 9 \<or> k = 10 \<or> k = 11 \<or> k = 12 \<or> k = 13 \<or> k = 14 \<or> k = 15"
    by presburger
  then show ?thesis
    by (elim disjE) (simp_all add: hex_val_def hex_digit_def)
qed

lemma hex_val_hex_digit_mod: "hex_val (hex_digit (n mod 16)) = Some (n mod 16)"
  by (simp add: hex_val_hex_digit)

lemma hex4_unicode_escape:
  "hex4 (hex_digit (unat c div 4096)) (hex_digit (unat c div 256 mod 16))
        (hex_digit (unat c div 16 mod 16)) (hex_digit (unat c mod 16)) = Some (c::jschar)"
proof -
  have "unat c < 65536"
    using unsigned_less [of c] by simp
  then have top: "unat c div 4096 < 16"
    by simp
  have whole: "(of_nat (((unat c div 4096 * 16 + unat c div 256 mod 16) * 16
                 + unat c div 16 mod 16) * 16 + unat c mod 16) :: jschar) = c"
    by (simp only: nibbles) simp
  show ?thesis
    unfolding hex4_def
    by (simp only: hex_val_hex_digit [OF top] hex_val_hex_digit_mod option.case whole)
qed

lemma scan_chars_unicode_escape:
  "scan_chars (unicode_escape c @ r) =
     (case scan_chars r of None \<Rightarrow> None | Some (t, r') \<Rightarrow> Some (c # t, r'))"
  by (simp add: unicode_escape_def hex4_unicode_escape)

lemma scan_chars_quote_unit:
  "scan_chars (quote_unit c @ r) =
     (case scan_chars r of None \<Rightarrow> None | Some (t, r') \<Rightarrow> Some (c # t, r'))"
  by (auto simp add: quote_unit_def unescape_def scan_chars_unicode_escape
           simp del: scan_chars.simps) (simp_all add: unescape_def)

lemma scan_chars_surrogate:
  "is_high_surrogate c \<or> is_low_surrogate c \<Longrightarrow>
   scan_chars (c # r) =
     (case scan_chars r of None \<Rightarrow> None | Some (t, r') \<Rightarrow> Some (c # t, r'))"
  by (auto simp add: is_high_surrogate_def is_low_surrogate_def word_le_nat_alt word_less_nat_alt)

lemma scan_chars_quote_units: "scan_chars (quote_units s @ 0x22 # rest) = Some (s, rest)"
proof (induction s rule: quote_units.induct)
  case 1
  show ?case by simp
next
  case (2 c cs)
  show ?case
  proof (cases "is_high_surrogate c")
    case high: True
    show ?thesis
    proof (cases cs)
      case Nil
      have "scan_chars (unicode_escape c @ 0x22 # rest) = Some ([c], rest)"
        by (simp only: scan_chars_unicode_escape) simp
      with high Nil show ?thesis
        by (simp del: scan_chars.simps)
    next
      case (Cons d ds)
      show ?thesis
      proof (cases "is_low_surrogate d")
        case low: True
        have "scan_chars (c # d # quote_units ds @ 0x22 # rest) = Some (c # d # ds, rest)"
          using high low "2.IH"(1) [OF high Cons low]
          by (simp add: scan_chars_surrogate del: scan_chars.simps)
        with high Cons low show ?thesis
          by (simp del: scan_chars.simps)
      next
        case False
        have "scan_chars (unicode_escape c @ quote_units cs @ 0x22 # rest) = Some (c # cs, rest)"
          using "2.IH"(2) [OF high Cons False]
          by (simp only: scan_chars_unicode_escape) simp
        with high Cons False show ?thesis
          by (simp del: scan_chars.simps)
      qed
    qed
  next
    case nohigh: False
    show ?thesis
    proof (cases "is_low_surrogate c")
      case True
      have "scan_chars (unicode_escape c @ quote_units cs @ 0x22 # rest) = Some (c # cs, rest)"
        using "2.IH"(3) [OF nohigh True]
        by (simp only: scan_chars_unicode_escape) simp
      with nohigh True show ?thesis
        by (simp del: scan_chars.simps)
    next
      case False
      have "scan_chars (quote_unit c @ quote_units cs @ 0x22 # rest) = Some (c # cs, rest)"
        using "2.IH"(4) [OF nohigh False]
        by (simp only: scan_chars_quote_unit) simp
      with nohigh False show ?thesis
        by (simp del: scan_chars.simps)
    qed
  qed
qed

lemma scan_chars_QuoteJSONString:
  "scan_chars (tl (QuoteJSONString s) @ rest) = Some (s, rest)"
  using scan_chars_quote_units [of s rest] by (simp add: QuoteJSONString_def del: scan_chars.simps)

lemma delimited_digits:
  "delimited r \<Longrightarrow> takeWhile is_digit r = [] \<and> dropWhile is_digit r = r"
  by (cases r) (auto simp add: delimited_def is_digit_def)

lemma digits_append:
  "delimited r \<Longrightarrow>
   takeWhile is_digit (cs @ r) = takeWhile is_digit cs \<and>
   dropWhile is_digit (cs @ r) = dropWhile is_digit cs @ r"
  by (induction cs) (simp_all add: delimited_digits)

lemma scan_int_append:
  "scan_int s = Some (i, s1) \<Longrightarrow> delimited r \<Longrightarrow> scan_int (s @ r) = Some (i, s1 @ r)"
  by (cases s) (auto simp add: digits_append split: if_splits)

lemma scan_frac_append:
  "scan_frac s = Some (f, s1) \<Longrightarrow> delimited r \<Longrightarrow> scan_frac (s @ r) = Some (f, s1 @ r)"
proof (cases s)
  case Nil
  assume "scan_frac s = Some (f, s1)" "delimited r"
  with Nil show ?thesis
    by (cases r) (auto simp add: delimited_def)
next
  case (Cons c cs)
  assume "scan_frac s = Some (f, s1)" "delimited r"
  with Cons show ?thesis
    by (auto simp add: digits_append split: if_splits)
qed

lemma scan_exp_append:
  "scan_exp s = Some (e, s1) \<Longrightarrow> delimited r \<Longrightarrow> scan_exp (s @ r) = Some (e, s1 @ r)"
proof (cases s)
  case Nil
  assume "scan_exp s = Some (e, s1)" "delimited r"
  with Nil show ?thesis
    by (cases r) (auto simp add: delimited_def)
next
  case (Cons c cs)
  assume "scan_exp s = Some (e, s1)" "delimited r"
  with Cons show ?thesis
    by (cases cs) (auto simp add: digits_append split: if_splits)
qed

lemma scan_unsigned_append:
  "scan_unsigned s = Some (n, s1) \<Longrightarrow> delimited r \<Longrightarrow>
   scan_unsigned (s @ r) = Some (n, s1 @ r)"
  by (auto simp add: scan_unsigned_def scan_int_append scan_frac_append scan_exp_append
           split: option.splits)

lemma scan_number_append:
  assumes "scan_number s = Some (n, s1)" and "delimited r"
  shows "scan_number (s @ r) = Some (n, s1 @ r)"
proof (cases s)
  case Nil
  with assms show ?thesis by simp
next
  case (Cons c cs)
  show ?thesis
  proof (cases "c = 0x2D")
    case True
    with assms Cons obtain m where "scan_unsigned cs = Some (m, s1)" and "n = c # m"
      by (auto split: option.splits)
    with True Cons scan_unsigned_append [of cs m s1 r] assms(2) show ?thesis
      by simp
  next
    case False
    with assms Cons have "scan_unsigned (c # cs) = Some (n, s1)"
      by simp
    with False Cons scan_unsigned_append [of "c # cs" n s1 r] assms(2) show ?thesis
      by simp
  qed
qed

lemma scan_number_first:
  "scan_number s = Some (n, s1) \<Longrightarrow> \<exists>c cs. s = c # cs \<and> (c = 0x2D \<or> is_digit c)"
  by (cases s) (auto simp add: scan_unsigned_def is_digit_def split: if_splits option.splits
                      elim!: scan_int.elims)

lemma round_trips_null: "round_trips number JNull"
  unfolding round_trips_def
  by (simp add: value_start_def is_ws_def) (subst parse_value.simps, simp add: skip_ws_def is_ws_def is_digit_def)

lemma round_trips_bool: "round_trips number (JBool b)"
  unfolding round_trips_def
  by (cases b; simp add: value_start_def is_ws_def; subst parse_value.simps;
      simp add: skip_ws_def is_ws_def is_digit_def)

lemma round_trips_str: "round_trips number (JStr s)"
  unfolding round_trips_def
  by (simp add: value_start_def is_ws_def QuoteJSONString_def del: scan_chars.simps)
     (subst parse_value.simps, simp add: skip_ws_def is_ws_def scan_chars_quote_units del: scan_chars.simps)

lemma digit_not_ws: "is_digit c \<Longrightarrow> \<not> is_ws c \<and> c \<noteq> 0x7B \<and> c \<noteq> 0x5B \<and> c \<noteq> 0x22 \<and> c \<noteq> 0x5D"
  by (auto simp add: is_digit_def is_ws_def)

lemma round_trips_num:
  assumes "\<not> non_finite n" and "scan_number n = Some (n, [])" and "number n = n"
  shows "round_trips number (JNum n)"
proof -
  from scan_number_first [OF assms(2)] obtain c cs where n: "n = c # cs"
    and c: "c = 0x2D \<or> is_digit c"
    by blast
  from c have c': "\<not> is_ws c \<and> c \<noteq> 0x7B \<and> c \<noteq> 0x5B \<and> c \<noteq> 0x22 \<and> c \<noteq> 0x5D"
    using digit_not_ws [of c] by (auto simp add: is_ws_def)
  have "parse_value number (n @ r) = Some (JNum n, r)" if "delimited r" for r
  proof -
    have "scan_number (c # cs @ r) = Some (n, r)"
      using scan_number_append [OF assms(2) that] n by simp
    with c c' assms(3) show ?thesis
      unfolding n
      by (subst parse_value.simps) (simp add: skip_ws_def del: scan_number.simps)
  qed
  with n c' assms(1) show ?thesis
    by (simp add: round_trips_def value_start_def)
qed

lemma delimited_simps [simp]:
  "delimited []" "delimited (0x2C # r)" "delimited (0x5D # r)" "delimited (0x7D # r)"
  by (simp_all add: delimited_def)

lemma skip_ws_delimiter [simp]:
  "skip_ws (0x2C # r) = 0x2C # r" "skip_ws (0x5D # r) = 0x5D # r"
  "skip_ws (0x7D # r) = 0x7D # r" "skip_ws (0x3A # r) = 0x3A # r"
  "skip_ws (0x22 # r) = 0x22 # r"
  by (simp_all add: skip_ws_def is_ws_def)

lemma value_start_nonempty: "value_start t \<Longrightarrow> t \<noteq> []"
  by (cases t) (simp_all add: value_start_def)

lemma join_Cons: "ts \<noteq> [] \<Longrightarrow> join (t # ts) = t @ 0x2C # join ts"
  by (cases ts) simp_all

lemma SerializeJSONArray_Nil_iff: "SerializeJSONArray vs = [] \<longleftrightarrow> vs = []"
  by (cases vs) simp_all

lemma parse_elements_serialized:
  assumes "vs \<noteq> []" and "\<forall>v\<in>set vs. round_trips number v"
  shows "parse_elements number (join (SerializeJSONArray vs) @ 0x5D # r) = Some (vs, r)"
  using assms
proof (induction vs rule: list_nonempty_induct)
  case (single v)
  then obtain t where t: "SerializeJSONProperty v = Some t" "value_start t"
    and p: "\<And>r. delimited r \<Longrightarrow> parse_value number (t @ r) = Some (v, r)"
    by (auto simp add: round_trips_def)
  have "parse_value number (t @ 0x5D # r) = Some (v, 0x5D # r)"
    by (rule p) simp
  with t value_start_nonempty [OF t(2)] show ?case
    by (subst parse_elements.simps) simp
next
  case (cons v vs)
  then obtain t where t: "SerializeJSONProperty v = Some t" "value_start t"
    and p: "\<And>r. delimited r \<Longrightarrow> parse_value number (t @ r) = Some (v, r)"
    by (auto simp add: round_trips_def)
  let ?rest = "join (SerializeJSONArray vs) @ 0x5D # r"
  have "parse_value number (t @ 0x2C # ?rest) = Some (v, 0x2C # ?rest)"
    by (rule p) simp
  moreover have "parse_elements number ?rest = Some (vs, r)"
    using cons by simp
  moreover have "join (SerializeJSONArray (v # vs)) = t @ 0x2C # join (SerializeJSONArray vs)"
    using t cons.hyps by (simp add: join_Cons SerializeJSONArray_Nil_iff)
  ultimately show ?case
    using value_start_nonempty [OF t(2)]
    by (subst parse_elements.simps) simp
qed

lemma join_start:
  "ts \<noteq> [] \<Longrightarrow> value_start (hd ts) \<Longrightarrow> value_start (join ts @ r)"
proof (cases ts)
  case Nil
  assume "ts \<noteq> []"
  with Nil show ?thesis by simp
next
  case (Cons t ts')
  assume "value_start (hd ts)"
  with Cons show ?thesis
    by (cases t; cases ts') (simp_all add: value_start_def)
qed

lemma round_trips_arr:
  assumes "\<forall>v\<in>set vs. round_trips number v"
  shows "round_trips number (JArr vs)"
proof (cases vs)
  case Nil
  have "parse_value number (0x5B # 0x5D # r) = Some (JArr [], r)" for r
    by (subst parse_value.simps) (simp add: skip_ws_def is_ws_def)
  with Nil show ?thesis
    by (simp add: round_trips_def value_start_def is_ws_def)
next
  case (Cons w ws)
  then have ne: "vs \<noteq> []" by simp
  from Cons assms obtain t where t: "SerializeJSONProperty w = Some t" "value_start t"
    by (auto simp add: round_trips_def)
  have "parse_value number (0x5B # join (SerializeJSONArray vs) @ 0x5D # r) = Some (JArr vs, r)" for r
  proof -
    have "value_start (join (SerializeJSONArray vs) @ 0x5D # r)"
      using Cons t by (intro join_start) simp_all
    then obtain c cs where c: "join (SerializeJSONArray vs) @ 0x5D # r = c # cs"
      "\<not> is_ws c" "c \<noteq> 0x5D"
      by (auto simp add: value_start_def split: list.splits)
    have "parse_elements number (c # cs) = Some (vs, r)"
      using parse_elements_serialized [OF ne assms, of r] c(1) by simp
    with c show ?thesis
      by (subst parse_value.simps) (simp add: skip_ws_def is_ws_def)
  qed
  then show ?thesis
    by (simp add: round_trips_def value_start_def is_ws_def)
qed

lemma SerializeJSONObject_Nil_iff:
  "\<forall>p\<in>set ps. round_trips number (snd p) \<Longrightarrow> SerializeJSONObject ps = [] \<longleftrightarrow> ps = []"
  by (cases ps) (auto simp add: round_trips_def)

lemma parse_members_serialized:
  assumes "ps \<noteq> []" and "\<forall>p\<in>set ps. round_trips number (snd p)"
  shows "parse_members number (join (SerializeJSONObject ps) @ 0x7D # r) = Some (ps, r)"
  using assms
proof (induction ps rule: list_nonempty_induct)
  case (single p)
  then obtain t where t: "SerializeJSONProperty (snd p) = Some t" "value_start t"
    and v: "\<And>r. delimited r \<Longrightarrow> parse_value number (t @ r) = Some (snd p, r)"
    by (auto simp add: round_trips_def)
  have "parse_value number (t @ 0x7D # r) = Some (snd p, 0x7D # r)"
    by (rule v) simp
  with t value_start_nonempty [OF t(2)] show ?case
    by (subst parse_members.simps)
       (simp add: QuoteJSONString_def scan_chars_quote_units del: scan_chars.simps)
next
  case (cons p ps)
  then obtain t where t: "SerializeJSONProperty (snd p) = Some t" "value_start t"
    and v: "\<And>r. delimited r \<Longrightarrow> parse_value number (t @ r) = Some (snd p, r)"
    by (auto simp add: round_trips_def)
  let ?rest = "join (SerializeJSONObject ps) @ 0x7D # r"
  have "parse_value number (t @ 0x2C # ?rest) = Some (snd p, 0x2C # ?rest)"
    by (rule v) simp
  moreover have "parse_members number ?rest = Some (ps, r)"
    using cons by simp
  moreover have "join (SerializeJSONObject (p # ps)) =
      (QuoteJSONString (fst p) @ 0x3A # t) @ 0x2C # join (SerializeJSONObject ps)"
    using t cons.hyps cons.prems SerializeJSONObject_Nil_iff [of ps number]
    by (simp add: join_Cons)
  ultimately show ?case
    using value_start_nonempty [OF t(2)]
    by (subst parse_members.simps)
       (simp add: QuoteJSONString_def scan_chars_quote_units del: scan_chars.simps)
qed

lemma round_trips_obj:
  assumes "\<forall>p\<in>set ps. round_trips number (snd p)"
  shows "round_trips number (JObj ps)"
proof (cases ps)
  case Nil
  have "parse_value number (0x7B # 0x7D # r) = Some (JObj [], r)" for r
    by (subst parse_value.simps) (simp add: skip_ws_def is_ws_def)
  with Nil show ?thesis
    by (simp add: round_trips_def value_start_def is_ws_def)
next
  case (Cons q qs)
  then have ne: "ps \<noteq> []" by simp
  from Cons assms obtain t where t: "SerializeJSONProperty (snd q) = Some t"
    by (auto simp add: round_trips_def)
  have "parse_value number (0x7B # join (SerializeJSONObject ps) @ 0x7D # r) = Some (JObj ps, r)" for r
  proof -
    obtain cs where c: "join (SerializeJSONObject ps) @ 0x7D # r = 0x22 # cs"
      using Cons t by (cases "SerializeJSONObject qs") (simp_all add: QuoteJSONString_def)
    have "parse_members number (0x22 # cs) = Some (ps, r)"
      using parse_members_serialized [OF ne assms, of r] c by simp
    with c show ?thesis
      by (subst parse_value.simps) (simp add: skip_ws_def is_ws_def)
  qed
  then show ?thesis
    by (simp add: round_trips_def value_start_def is_ws_def)
qed

lemma is_json_round_trips: "is_json number v \<Longrightarrow> round_trips number v"
proof (induction v)
  case JUndefined
  then show ?case by simp
next
  case JNull
  show ?case by (rule round_trips_null)
next
  case (JBool b)
  show ?case by (rule round_trips_bool)
next
  case (JNum n)
  then show ?case by (simp add: round_trips_num)
next
  case (JStr s)
  show ?case by (rule round_trips_str)
next
  case (JArr vs)
  then show ?case
    by (intro round_trips_arr) (simp add: list_all_iff)
next
  case (JObj ps)
  have "round_trips number (snd p)" if "p \<in> set ps" for p
    using JObj.IH [of p "snd p"] JObj.prems that
    by (cases p) (auto simp add: list_all_iff)
  then show ?case
    by (intro round_trips_obj) simp
qed

lemma JSON_parse_stringify:
  assumes "is_json number v"
  shows "\<exists>t. JSON_stringify v = Some t \<and> t \<noteq> [] \<and> JSON_parse number t = Some v"
proof -
  from is_json_round_trips [OF assms] obtain t
    where t: "SerializeJSONProperty v = Some t" "value_start t"
      and p: "\<And>r. delimited r \<Longrightarrow> parse_value number (t @ r) = Some (v, r)"
    by (auto simp add: round_trips_def)
  have "parse_value number t = Some (v, [])"
    using p [of "[]"] by simp
  with t value_start_nonempty [OF t(2)] show ?thesis
    by (simp add: JSON_stringify_def JSON_parse_def skip_ws_def)
qed

text \<open>
  A property whose value is \<^verbatim>\<open>undefined\<close> is left out of the text, so the parsed object
  lacks it; reading it yields \<^verbatim>\<open>undefined\<close> all the same.
\<close>

lemma SerializeJSONProperty_None_iff: "SerializeJSONProperty v = None \<longleftrightarrow> v = JUndefined"
  by (cases v) simp_all

lemma SerializeJSONObject_defined:
  "SerializeJSONObject (filter (\<lambda>p. snd p \<noteq> JUndefined) ps) = SerializeJSONObject ps"
proof (induction ps)
  case Nil
  show ?case by simp
next
  case (Cons p ps)
  then show ?case
    using SerializeJSONProperty_None_iff [of "snd p"]
    by (cases "SerializeJSONProperty (snd p)") auto
qed

lemma JSON_parse_stringify_object:
  assumes "\<forall>p\<in>set ps. snd p = JUndefined \<or> is_json number (snd p)"
  shows "\<exists>t. JSON_stringify (JObj ps) = Some t \<and> t \<noteq> [] \<and>
             JSON_parse number t = Some (JObj (filter (\<lambda>p. snd p \<noteq> JUndefined) ps))"
proof -
  have "is_json number (JObj (filter (\<lambda>p. snd p \<noteq> JUndefined) ps))"
    using assms by (auto simp add: list_all_iff)
  from JSON_parse_stringify [OF this] show ?thesis
    by (simp add: JSON_stringify_def SerializeJSONObject_defined)
qed

lemma map_of_rev_distinct: "distinct (map fst xs) \<Longrightarrow> map_of (rev xs) = map_of xs"
proof (induction xs)
  case Nil
  show ?case by simp
next
  case (Cons x xs)
  have "fst x \<notin> dom (map_of xs)"
    using Cons.prems by (simp add: dom_map_of_conv_image_fst)
  then show ?case
    using Cons
    by (cases x) (auto simp add: map_add_def fun_eq_iff dom_def split: option.splits)
qed

lemma get_prop_defined:
  assumes "distinct (map fst ps)"
  shows "get_prop (JObj (filter (\<lambda>p. snd p \<noteq> JUndefined) ps)) k = get_prop (JObj ps) k"
proof -
  have d: "distinct (map fst (filter (\<lambda>p. snd p \<noteq> JUndefined) ps))"
    using assms by (simp add: distinct_map_filter)
  have "(case map_of (filter (\<lambda>p. snd p \<noteq> JUndefined) ps) k of
           None \<Rightarrow> JUndefined | Some v \<Rightarrow> v) =
        (case map_of ps k of None \<Rightarrow> JUndefined | Some v \<Rightarrow> v)"
    using assms
  proof (induction ps)
    case Nil
    show ?case by simp
  next
    case (Cons p ps)
    then show ?case
      by (cases p) (auto simp add: image_iff split: option.splits dest: map_of_SomeD)
  qed
  then show ?thesis
    using assms d by (simp add: map_of_rev_distinct)
qed

subsection \<open>The restore effect\<close>

text \<open>
  C4 (as amended): when the value stored under \<^verbatim>\<open>tobaku_user\<close> does not parse as JSON, the
  restore effect on a freshly mounted provider returns normally, leaves the current user
  \<^verbatim>\<open>null\<close> and ends with \<^verbatim>\<open>isLoading\<close> false. It removes the key when the value is not
  empty; the empty string is falsy, is never handed to \<^verbatim>\<open>JSON.parse\<close>, and stays stored.
\<close>

theorem restore_unparseable_snapshot:
  assumes "storage tobaku_user = Some s" and "JSON_parse number s = None"
  shows "fst (startup_restore number (mount storage)) = Normal () \<and>
         user (snd (startup_restore number (mount storage))) = JNull \<and>
         isLoading (snd (startup_restore number (mount storage))) = False \<and>
         localStorage (snd (startup_restore number (mount storage))) tobaku_user =
           (if s = [] then Some [] else None)"
  using assms
  by (simp add: startup_restore_def restore_try_def mount_def effects)

theorem restore_unparseable_snapshot_witness:
  "JSON_parse (\<lambda>n. n) (str ''{oops'') = None \<and>
   fst (startup_restore (\<lambda>n. n) (mount (Map.empty(tobaku_user \<mapsto> str ''{oops'')))) = Normal () \<and>
   user (snd (startup_restore (\<lambda>n. n) (mount (Map.empty(tobaku_user \<mapsto> str ''{oops''))))) = JNull \<and>
   isLoading (snd (startup_restore (\<lambda>n. n) (mount (Map.empty(tobaku_user \<mapsto> str ''{oops''))))) = False \<and>
   localStorage (snd (startup_restore (\<lambda>n. n) (mount (Map.empty(tobaku_user \<mapsto> str ''{oops'')))))
     tobaku_user = None"
proof -
  have p: "JSON_parse (\<lambda>n. n) (str ''{oops'') = None"
    by (simp add: JSON_parse_def parse_value.simps parse_members.simps skip_ws_def is_ws_def)
  have k: "(Map.empty(tobaku_user \<mapsto> str ''{oops'')) tobaku_user = Some (str ''{oops'')"
    by simp
  show ?thesis
    using p restore_unparseable_snapshot
        [where storage = "Map.empty(tobaku_user \<mapsto> str ''{oops'')" and s = "str ''{oops''"
          and number = "\<lambda>n. n", OF k p]
    by simp
qed

text \<open>
  C4 as stated fails at the empty string: it is not JSON, and the effect keeps the key.
\<close>

theorem restore_empty_snapshot_kept:
  "JSON_parse (\<lambda>n. n) [] = None \<and>
   localStorage (snd (startup_restore (\<lambda>n. n) (mount (Map.empty(tobaku_user \<mapsto> []))))) tobaku_user
     = Some []"
  by (simp add: startup_restore_def mount_def effects JSON_parse_def parse_value.simps skip_ws_def)

subsection \<open>login against a row of the store\<close>

text \<open>
  What \<^verbatim>\<open>login\<close> does once the lookup has answered with a row and no error, in terms of the
  password test, the write and the welcome message.
\<close>

lemma login_row:
  assumes "\<not> truthy err"
  shows "login (Resolves (JObj row) err) w uname pw st =
     (if get_prop (JObj row) (str ''password'') = JStr pw then
        (case w of
           Refused \<Rightarrow>
             (Normal False,
              setIsLoading False
                (toast_error ''Terjadi kesalahan saat login''
                   (console_caught ''Login error:'' QuotaExceededError
                      (setUser (userData (JObj row))
                         (send (SelectSingle (str ''*'') uname) (setIsLoading True st))))))
         | Accepted \<Rightarrow>
             (case ToString (get_prop (JObj row) (str ''name'')) of
                Throw e \<Rightarrow>
                  (Normal False,
                   setIsLoading False
                     (toast_error ''Terjadi kesalahan saat login''
                        (console_caught ''Login error:'' e
                           (snd (setItem Accepted tobaku_user (JSON_stringify (userData (JObj row)))
                              (setUser (userData (JObj row))
                                 (send (SelectSingle (str ''*'') uname)
                                    (setIsLoading True st))))))))
              | Normal n \<Rightarrow>
                  (Normal True,
                   setIsLoading False
                     (toast_success (str ''Selamat datang, '' @ n @ str ''!'')
                        (snd (setItem Accepted tobaku_user (JSON_stringify (userData (JObj row)))
                           (setUser (userData (JObj row))
                              (send (SelectSingle (str ''*'') uname)
                                 (setIsLoading True st)))))))))
      else
        (Normal False,
         setIsLoading False
           (toast_error ''Password salah''
              (send (SelectSingle (str ''*'') uname) (setIsLoading True st)))))"
proof -
  have name: "get_prop (userData (JObj row)) (str ''name'') = get_prop (JObj row) (str ''name'')"
    by (simp add: userData_def)
  show ?thesis
    using assms
    by (cases w; cases "ToString (get_prop (JObj row) (str ''name''))")
       (simp_all add: login_def login_try_def Let_def setItem_def name
             del: get_prop.simps str_simps)
qed

lemma login_part_000_true:
  assumes "fst (login_part_000 (Resolves users err) w uname pw st) = Normal True"
  shows "user (snd (login_part_000 (Resolves users err) w uname pw st)) = userData users \<and>
         localStorage (snd (login_part_000 (Resolves users err) w uname pw st)) tobaku_user =
           JSON_stringify (userData users)"
  using assms
  by (cases w)
     (auto simp add: login_part_000_def login_try_part_000_def effects Let_def userData_def
             JSON_stringify_def
           split: if_splits simp del: get_prop.simps str_simps)

text \<open>
  C1 (as amended): when the lookup answers with a row and no error, \<^verbatim>\<open>login\<close> of
  \<^verbatim>\<open>AuthContext.tsx\<close> resolves \<^verbatim>\<open>true\<close> only if the \<^verbatim>\<open>password\<close> field of the row is a string
  equal to the password supplied; and it resolves \<^verbatim>\<open>true\<close> exactly when it is, provided the
  browser accepts the write of the snapshot and the \<^verbatim>\<open>name\<close> of the row converts to a
  string. In both sources, whenever \<^verbatim>\<open>login\<close> resolves \<^verbatim>\<open>true\<close>, the current user is the
  object built from the \<^verbatim>\<open>id\<close>, \<^verbatim>\<open>name\<close>, \<^verbatim>\<open>username\<close>, \<^verbatim>\<open>role\<close> and \<^verbatim>\<open>created_at\<close> of the row, and
  its JSON text is stored under the key \<^verbatim>\<open>tobaku_user\<close>. The variant \<^verbatim>\<open>part_000\<close> does not
  compare the password of the row.
\<close>

theorem login_record_password:
  assumes "\<not> truthy err"
  shows "(fst (login (Resolves (JObj row) err) w uname pw st) = Normal True \<longrightarrow>
            get_prop (JObj row) (str ''password'') = JStr pw \<and>
            user (snd (login (Resolves (JObj row) err) w uname pw st)) =
              JObj [(str ''id'', get_prop (JObj row) (str ''id'')),
                    (str ''name'', get_prop (JObj row) (str ''name'')),
                    (str ''username'', get_prop (JObj row) (str ''username'')),
                    (str ''role'', get_prop (JObj row) (str ''role'')),
                    (str ''created_at'', get_prop (JObj row) (str ''created_at''))] \<and>
            localStorage (snd (login (Resolves (JObj row) err) w uname pw st)) tobaku_user =
              JSON_stringify (user (snd (login (Resolves (JObj row) err) w uname pw st)))) \<and>
         (w = Accepted \<and> (\<exists>n. ToString (get_prop (JObj row) (str ''name'')) = Normal n) \<longrightarrow>
            fst (login (Resolves (JObj row) err) w uname pw st) =
              Normal (get_prop (JObj row) (str ''password'') = JStr pw)) \<and>
         (fst (login_part_000 (Resolves (JObj row) err) w uname pw st) = Normal True \<longrightarrow>
            user (snd (login_part_000 (Resolves (JObj row) err) w uname pw st)) =
              JObj [(str ''id'', get_prop (JObj row) (str ''id'')),
                    (str ''name'', get_prop (JObj row) (str ''name'')),
                    (str ''username'', get_prop (JObj row) (str ''username'')),
                    (str ''role'', get_prop (JObj row) (str ''role'')),
                    (str ''created_at'', get_prop (JObj row) (str ''created_at''))] \<and>
            localStorage (snd (login_part_000 (Resolves (JObj row) err) w uname pw st))
              tobaku_user =
              JSON_stringify (user (snd (login_part_000 (Resolves (JObj row) err) w uname pw st))))"
proof (intro conjI impI)
  assume t: "fst (login (Resolves (JObj row) err) w uname pw st) = Normal True"
  then show "get_prop (JObj row) (str ''password'') = JStr pw"
    by (simp add: login_row [OF assms] split: if_splits del: get_prop.simps str_simps)
  from t show "user (snd (login (Resolves (JObj row) err) w uname pw st)) =
      JObj [(str ''id'', get_prop (JObj row) (str ''id'')),
            (str ''name'', get_prop (JObj row) (str ''name'')),
            (str ''username'', get_prop (JObj row) (str ''username'')),
            (str ''role'', get_prop (JObj row) (str ''role'')),
            (str ''created_at'', get_prop (JObj row) (str ''created_at''))]"
    by (simp add: login_row [OF assms] effects userData_def
          split: if_splits storage_write.splits completion.splits del: get_prop.simps str_simps)
  from t show "localStorage (snd (login (Resolves (JObj row) err) w uname pw st)) tobaku_user =
      JSON_stringify (user (snd (login (Resolves (JObj row) err) w uname pw st)))"
    by (simp add: login_row [OF assms] effects userData_def JSON_stringify_def
          split: if_splits storage_write.splits completion.splits del: get_prop.simps str_simps)
next
  assume "w = Accepted \<and> (\<exists>n. ToString (get_prop (JObj row) (str ''name'')) = Normal n)"
  then show "fst (login (Resolves (JObj row) err) w uname pw st) =
      Normal (get_prop (JObj row) (str ''password'') = JStr pw)"
    by (auto simp add: login_row [OF assms] simp del: get_prop.simps str_simps)
next
  assume t: "fst (login_part_000 (Resolves (JObj row) err) w uname pw st) = Normal True"
  from login_part_000_true [OF t]
  show "user (snd (login_part_000 (Resolves (JObj row) err) w uname pw st)) =
      JObj [(str ''id'', get_prop (JObj row) (str ''id'')),
            (str ''name'', get_prop (JObj row) (str ''name'')),
            (str ''username'', get_prop (JObj row) (str ''username'')),
            (str ''role'', get_prop (JObj row) (str ''role'')),
            (str ''created_at'', get_prop (JObj row) (str ''created_at''))]"
    by (simp add: userData_def del: get_prop.simps str_simps)
  from login_part_000_true [OF t]
  show "localStorage (snd (login_part_000 (Resolves (JObj row) err) w uname pw st)) tobaku_user =
      JSON_stringify (user (snd (login_part_000 (Resolves (JObj row) err) w uname pw st)))"
    by (simp del: get_prop.simps str_simps)
qed

theorem login_record_password_witness:
  "\<not> truthy JNull \<and>
   ToString (get_prop (JObj [(str ''id'', JNum (str ''1'')), (str ''name'', JStr (str ''Admin'')),
      (str ''username'', JStr (str ''admin'')), (str ''password'', JStr (str ''rahasia'')),
      (str ''role'', JStr (str ''admin'')), (str ''created_at'', JStr (str ''2024-01-01''))]) (str ''name'')) = Normal (str ''Admin'') \<and>
   fst (login (Resolves (JObj [(str ''id'', JNum (str ''1'')), (str ''name'', JStr (str ''Admin'')),
      (str ''username'', JStr (str ''admin'')), (str ''password'', JStr (str ''rahasia'')),
      (str ''role'', JStr (str ''admin'')), (str ''created_at'', JStr (str ''2024-01-01''))]) JNull)
      Accepted (str ''admin'') (str ''rahasia'') (mount Map.empty)) = Normal True \<and>
   user (snd (login (Resolves (JObj [(str ''id'', JNum (str ''1'')), (str ''name'', JStr (str ''Admin'')),
      (str ''username'', JStr (str ''admin'')), (str ''password'', JStr (str ''rahasia'')),
      (str ''role'', JStr (str ''admin'')), (str ''created_at'', JStr (str ''2024-01-01''))]) JNull)
      Accepted (str ''admin'') (str ''rahasia'') (mount Map.empty))) =
     JObj [(str ''id'', JNum (str ''1'')), (str ''name'', JStr (str ''Admin'')),
      (str ''username'', JStr (str ''admin'')), (str ''role'', JStr (str ''admin'')),
      (str ''created_at'', JStr (str ''2024-01-01''))] \<and>
   localStorage (snd (login (Resolves (JObj [(str ''id'', JNum (str ''1'')), (str ''name'', JStr (str ''Admin'')),
      (str ''username'', JStr (str ''admin'')), (str ''password'', JStr (str ''rahasia'')),
      (str ''role'', JStr (str ''admin'')), (str ''created_at'', JStr (str ''2024-01-01''))]) JNull)
      Accepted (str ''admin'') (str ''rahasia'') (mount Map.empty))) tobaku_user =
     Some (str ''{\"id\":1,\"name\":\"Admin\",\"username\":\"admin\",\"role\":\"admin\",\"created_at\":\"2024-01-01\"}'') \<and>
   fst (login_part_000 (Resolves (JObj [(str ''id'', JNum (str ''1'')), (str ''name'', JStr (str ''Admin'')),
      (str ''username'', JStr (str ''admin'')), (str ''password'', JStr (str ''rahasia'')),
      (str ''role'', JStr (str ''admin'')), (str ''created_at'', JStr (str ''2024-01-01''))]) JNull)
      Accepted (str ''admin'') (str ''admin123'') (mount Map.empty)) = Normal True \<and>
   user (snd (login_part_000 (Resolves (JObj [(str ''id'', JNum (str ''1'')), (str ''name'', JStr (str ''Admin'')),
      (str ''username'', JStr (str ''admin'')), (str ''password'', JStr (str ''rahasia'')),
      (str ''role'', JStr (str ''admin'')), (str ''created_at'', JStr (str ''2024-01-01''))]) JNull)
      Accepted (str ''admin'') (str ''admin123'') (mount Map.empty))) =
     JObj [(str ''id'', JNum (str ''1'')), (str ''name'', JStr (str ''Admin'')),
      (str ''username'', JStr (str ''admin'')), (str ''role'', JStr (str ''admin'')),
      (str ''created_at'', JStr (str ''2024-01-01''))]"
proof -
  let ?row = "[(str ''id'', JNum (str ''1'')), (str ''name'', JStr (str ''Admin'')),
      (str ''username'', JStr (str ''admin'')), (str ''password'', JStr (str ''rahasia'')),
      (str ''role'', JStr (str ''admin'')), (str ''created_at'', JStr (str ''2024-01-01''))]"
  have h: "\<not> truthy JNull"
    by simp
  have n: "ToString (get_prop (JObj ?row) (str ''name'')) = Normal (str ''Admin'')"
    by simp
  have t: "fst (login (Resolves (JObj ?row) JNull) Accepted (str ''admin'') (str ''rahasia'')
      (mount Map.empty)) = Normal True"
    by (simp add: login_def login_try_def login_part_000_def login_try_part_000_def effects userData_def Let_def mount_def
        JSON_stringify_def QuoteJSONString_def quote_unit_def is_high_surrogate_def is_low_surrogate_def
        non_finite_def)
  have p: "fst (login_part_000 (Resolves (JObj ?row) JNull) Accepted (str ''admin'')
      (str ''admin123'') (mount Map.empty)) = Normal True"
    by (simp add: login_def login_try_def login_part_000_def login_try_part_000_def effects userData_def Let_def mount_def
        JSON_stringify_def QuoteJSONString_def quote_unit_def is_high_surrogate_def is_low_surrogate_def
        non_finite_def)
  show ?thesis
    using h n t p
      login_record_password [OF h, where row = ?row and w = Accepted and uname = "str ''admin''"
        and pw = "str ''rahasia''" and st = "mount Map.empty"]
      login_record_password [OF h, where row = ?row and w = Accepted and uname = "str ''admin''"
        and pw = "str ''admin123''" and st = "mount Map.empty"]
    by (simp add: JSON_stringify_def QuoteJSONString_def quote_unit_def
          is_high_surrogate_def is_low_surrogate_def non_finite_def)
qed

text \<open>
  C1 as stated fails. In \<^verbatim>\<open>part_000\<close> a login with the stored password of the row resolves
  \<^verbatim>\<open>false\<close>, and a login with \<^verbatim>\<open>admin\<close> and \<^verbatim>\<open>admin123\<close> resolves \<^verbatim>\<open>true\<close> on a row that
  stores another password. In \<^verbatim>\<open>AuthContext.tsx\<close> a login with the stored password resolves
  \<^verbatim>\<open>false\<close> when the \<^verbatim>\<open>name\<close> of the row is an object with an own property \<^verbatim>\<open>toString\<close>: the
  welcome message throws.
\<close>

theorem login_password_not_decisive:
  "get_prop (JObj [(str ''username'', JStr (str ''bob'')), (str ''password'', JStr (str ''s3cret''))])
     (str ''password'') = JStr (str ''s3cret'') \<and>
   fst (login_part_000 (Resolves (JObj [(str ''username'', JStr (str ''bob'')), (str ''password'', JStr (str ''s3cret''))]) JNull)
      Accepted (str ''bob'') (str ''s3cret'') (mount Map.empty)) = Normal False \<and>
   get_prop (JObj [(str ''id'', JNum (str ''1'')), (str ''name'', JStr (str ''Admin'')),
      (str ''username'', JStr (str ''admin'')), (str ''password'', JStr (str ''rahasia'')),
      (str ''role'', JStr (str ''admin'')), (str ''created_at'', JStr (str ''2024-01-01''))]) (str ''password'') \<noteq> JStr (str ''admin123'') \<and>
   fst (login_part_000 (Resolves (JObj [(str ''id'', JNum (str ''1'')), (str ''name'', JStr (str ''Admin'')),
      (str ''username'', JStr (str ''admin'')), (str ''password'', JStr (str ''rahasia'')),
      (str ''role'', JStr (str ''admin'')), (str ''created_at'', JStr (str ''2024-01-01''))]) JNull)
      Accepted (str ''admin'') (str ''admin123'') (mount Map.empty)) = Normal True \<and>
   get_prop (JObj [(str ''id'', JStr (str ''u-7'')), (str ''name'', JObj [(str ''toString'', JNum (str ''1''))]),
      (str ''username'', JStr (str ''eve'')), (str ''password'', JStr (str ''pw'')),
      (str ''role'', JStr (str ''staff'')), (str ''created_at'', JStr (str ''2024-01-01''))]) (str ''password'') = JStr (str ''pw'') \<and>
   fst (login (Resolves (JObj [(str ''id'', JStr (str ''u-7'')), (str ''name'', JObj [(str ''toString'', JNum (str ''1''))]),
      (str ''username'', JStr (str ''eve'')), (str ''password'', JStr (str ''pw'')),
      (str ''role'', JStr (str ''staff'')), (str ''created_at'', JStr (str ''2024-01-01''))]) JNull)
      Accepted (str ''eve'') (str ''pw'') (mount Map.empty)) = Normal False"
  by (simp add: login_def login_try_def login_part_000_def login_try_part_000_def effects userData_def Let_def mount_def
        JSON_stringify_def QuoteJSONString_def quote_unit_def is_high_surrogate_def is_low_surrogate_def
        non_finite_def)

text \<open>
  C2 fails in the code: whenever \<^verbatim>\<open>login\<close> resolves \<^verbatim>\<open>false\<close>, the current user and the
  snapshot should be what they were. \<^verbatim>\<open>setUser\<close> runs before \<^verbatim>\<open>localStorage.setItem\<close> and
  before the welcome message, inside the \<^verbatim>\<open>try\<close>. When the browser refuses the write, in
  either source, the exception is caught and \<^verbatim>\<open>login\<close> resolves \<^verbatim>\<open>false\<close> with the current
  user replaced. When the welcome message throws, in \<^verbatim>\<open>AuthContext.tsx\<close>, the snapshot is
  replaced as well.
\<close>

theorem login_false_after_setUser:
  "user (mount Map.empty) = JNull \<and>
   localStorage (mount Map.empty) tobaku_user = None \<and>
   fst (login (Resolves (JObj [(str ''id'', JNum (str ''1'')), (str ''name'', JStr (str ''Admin'')),
      (str ''username'', JStr (str ''admin'')), (str ''password'', JStr (str ''rahasia'')),
      (str ''role'', JStr (str ''admin'')), (str ''created_at'', JStr (str ''2024-01-01''))]) JNull)
      Refused (str ''admin'') (str ''rahasia'') (mount Map.empty)) = Normal False \<and>
   user (snd (login (Resolves (JObj [(str ''id'', JNum (str ''1'')), (str ''name'', JStr (str ''Admin'')),
      (str ''username'', JStr (str ''admin'')), (str ''password'', JStr (str ''rahasia'')),
      (str ''role'', JStr (str ''admin'')), (str ''created_at'', JStr (str ''2024-01-01''))]) JNull)
      Refused (str ''admin'') (str ''rahasia'') (mount Map.empty))) =
     JObj [(str ''id'', JNum (str ''1'')), (str ''name'', JStr (str ''Admin'')),
      (str ''username'', JStr (str ''admin'')), (str ''role'', JStr (str ''admin'')),
      (str ''created_at'', JStr (str ''2024-01-01''))] \<and>
   fst (login_part_000 (Resolves (JObj [(str ''id'', JNum (str ''1'')), (str ''name'', JStr (str ''Admin'')),
      (str ''username'', JStr (str ''admin'')), (str ''password'', JStr (str ''rahasia'')),
      (str ''role'', JStr (str ''admin'')), (str ''created_at'', JStr (str ''2024-01-01''))]) JNull)
      Refused (str ''admin'') (str ''admin123'') (mount Map.empty)) = Normal False \<and>
   user (snd (login_part_000 (Resolves (JObj [(str ''id'', JNum (str ''1'')), (str ''name'', JStr (str ''Admin'')),
      (str ''username'', JStr (str ''admin'')), (str ''password'', JStr (str ''rahasia'')),
      (str ''role'', JStr (str ''admin'')), (str ''created_at'', JStr (str ''2024-01-01''))]) JNull)
      Refused (str ''admin'') (str ''admin123'') (mount Map.empty))) =
     JObj [(str ''id'', JNum (str ''1'')), (str ''name'', JStr (str ''Admin'')),
      (str ''username'', JStr (str ''admin'')), (str ''role'', JStr (str ''admin'')),
      (str ''created_at'', JStr (str ''2024-01-01''))] \<and>
   fst (login (Resolves (JObj [(str ''id'', JStr (str ''u-7'')), (str ''name'', JObj [(str ''toString'', JNum (str ''1''))]),
      (str ''username'', JStr (str ''eve'')), (str ''password'', JStr (str ''pw'')),
      (str ''role'', JStr (str ''staff'')), (str ''created_at'', JStr (str ''2024-01-01''))]) JNull)
      Accepted (str ''eve'') (str ''pw'') (mount Map.empty)) = Normal False \<and>
   user (snd (login (Resolves (JObj [(str ''id'', JStr (str ''u-7'')), (str ''name'', JObj [(str ''toString'', JNum (str ''1''))]),
      (str ''username'', JStr (str ''eve'')), (str ''password'', JStr (str ''pw'')),
      (str ''role'', JStr (str ''staff'')), (str ''created_at'', JStr (str ''2024-01-01''))]) JNull)
      Accepted (str ''eve'') (str ''pw'') (mount Map.empty))) =
     JObj [(str ''id'', JStr (str ''u-7'')), (str ''name'', JObj [(str ''toString'', JNum (str ''1''))]),
      (str ''username'', JStr (str ''eve'')), (str ''role'', JStr (str ''staff'')),
      (str ''created_at'', JStr (str ''2024-01-01''))] \<and>
   localStorage (snd (login (Resolves (JObj [(str ''id'', JStr (str ''u-7'')), (str ''name'', JObj [(str ''toString'', JNum (str ''1''))]),
      (str ''username'', JStr (str ''eve'')), (str ''password'', JStr (str ''pw'')),
      (str ''role'', JStr (str ''staff'')), (str ''created_at'', JStr (str ''2024-01-01''))]) JNull)
      Accepted (str ''eve'') (str ''pw'') (mount Map.empty))) tobaku_user =
     Some (str ''{\"id\":\"u-7\",\"name\":{\"toString\":1},\"username\":\"eve\",\"role\":\"staff\",\"created_at\":\"2024-01-01\"}'')"
  by (simp add: login_def login_try_def login_part_000_def login_try_part_000_def effects userData_def Let_def mount_def
        JSON_stringify_def QuoteJSONString_def quote_unit_def is_high_surrogate_def is_low_surrogate_def
        non_finite_def)

text \<open>
  On every other path \<^verbatim>\<open>login\<close> leaves the current user and the snapshot alone: it changes
  them only after the password test has passed.
\<close>

lemma login_keeps_session:
  "(user (snd (login resp w uname pw st)) = user st \<and>
    localStorage (snd (login resp w uname pw st)) = localStorage st) \<or>
   (\<exists>users err. resp = Resolves users err \<and> \<not> truthy err \<and>
      get_prop users (str ''password'') = JStr pw \<and>
      user (snd (login resp w uname pw st)) = userData users)"
proof (cases resp)
  case (Rejects reason)
  then show ?thesis
    by (simp add: login_def login_try_def effects Let_def)
next
  case (Resolves users err)
  then show ?thesis
    by (cases w; cases "ToString (get_prop (userData users) (str ''name''))")
       (auto simp add: login_def login_try_def effects Let_def
             simp del: get_prop.simps str_simps)
qed

lemma login_part_000_keeps_session:
  "(user (snd (login_part_000 resp w uname pw st)) = user st \<and>
    localStorage (snd (login_part_000 resp w uname pw st)) = localStorage st) \<or>
   (\<exists>users err. resp = Resolves users err \<and> \<not> truthy err \<and> truthy users \<and>
      ((uname = str ''admin'' \<and> pw = str ''admin123'') \<or>
       (uname = str ''staff'' \<and> pw = str ''staff123'')) \<and>
      user (snd (login_part_000 resp w uname pw st)) = userData users)"
proof (cases resp)
  case (Rejects reason)
  then show ?thesis
    by (simp add: login_part_000_def login_try_part_000_def effects Let_def)
next
  case (Resolves users err)
  then show ?thesis
    by (cases w)
       (auto simp add: login_part_000_def login_try_part_000_def effects Let_def
             simp del: get_prop.simps str_simps)
qed

subsection \<open>The snapshot of a login\<close>

lemma login_true_state:
  assumes "fst (login (Resolves users err) w uname pw st) = Normal True"
  shows "user (snd (login (Resolves users err) w uname pw st)) = userData users \<and>
         localStorage (snd (login (Resolves users err) w uname pw st)) tobaku_user =
           JSON_stringify (userData users)"
  using assms
  by (cases w; cases "ToString (get_prop (userData users) (str ''name''))")
     (auto simp add: login_def login_try_def effects Let_def userData_def JSON_stringify_def
           split: if_splits simp del: get_prop.simps str_simps)

lemma userData_fields:
  "list_all (\<lambda>k. get_prop (userData users) k = get_prop users k)
     [str ''id'', str ''name'', str ''username'', str ''role'', str ''created_at'']"
  by (simp add: userData_def)

lemma userData_defined:
  assumes "list_all (\<lambda>k. get_prop users k \<noteq> JUndefined)
     [str ''id'', str ''name'', str ''username'', str ''role'', str ''created_at'']"
  shows "JObj (filter (\<lambda>p. snd p \<noteq> JUndefined)
           [(str ''id'', get_prop users (str ''id'')),
            (str ''name'', get_prop users (str ''name'')),
            (str ''username'', get_prop users (str ''username'')),
            (str ''role'', get_prop users (str ''role'')),
            (str ''created_at'', get_prop users (str ''created_at''))]) = userData users"
  using assms by (simp add: userData_def del: get_prop.simps str_simps)

text \<open>
  C8 (as amended): after a login that resolves \<^verbatim>\<open>true\<close> on a row in which each of \<^verbatim>\<open>id\<close>,
  \<^verbatim>\<open>name\<close>, \<^verbatim>\<open>username\<close>, \<^verbatim>\<open>role\<close> and \<^verbatim>\<open>created_at\<close> is missing or a JSON value (so it holds
  no number that is not finite), the text stored under \<^verbatim>\<open>tobaku_user\<close> parses to a user
  whose five fields equal those of the current user that the login set, and the restore
  effect of the next mount sets that user. When no field is missing it is the same object,
  property for property.
\<close>

theorem login_snapshot_round_trip:
  assumes "fst (login (Resolves users err) w uname pw st) = Normal True"
    and "list_all (\<lambda>k. get_prop users k = JUndefined \<or> is_json number (get_prop users k))
           [str ''id'', str ''name'', str ''username'', str ''role'', str ''created_at'']"
  shows "\<exists>t v. localStorage (snd (login (Resolves users err) w uname pw st)) tobaku_user = Some t \<and>
           JSON_parse number t = Some v \<and>
           user (snd (startup_restore number
                   (mount (localStorage (snd (login (Resolves users err) w uname pw st)))))) = v \<and>
           list_all (\<lambda>k. get_prop v k =
                           get_prop (user (snd (login (Resolves users err) w uname pw st))) k)
             [str ''id'', str ''name'', str ''username'', str ''role'', str ''created_at''] \<and>
           (list_all (\<lambda>k. get_prop users k \<noteq> JUndefined)
              [str ''id'', str ''name'', str ''username'', str ''role'', str ''created_at''] \<longrightarrow>
            v = user (snd (login (Resolves users err) w uname pw st)))"
proof -
  let ?st = "snd (login (Resolves users err) w uname pw st)"
  let ?ps = "[(str ''id'', get_prop users (str ''id'')),
              (str ''name'', get_prop users (str ''name'')),
              (str ''username'', get_prop users (str ''username'')),
              (str ''role'', get_prop users (str ''role'')),
              (str ''created_at'', get_prop users (str ''created_at''))]"
  let ?v = "JObj (filter (\<lambda>p. snd p \<noteq> JUndefined) ?ps)"
  have u: "userData users = JObj ?ps"
    by (simp add: userData_def)
  have "\<forall>p\<in>set ?ps. snd p = JUndefined \<or> is_json number (snd p)"
    using assms(2) by (simp del: get_prop.simps str_simps)
  from JSON_parse_stringify_object [OF this] obtain t
    where t: "JSON_stringify (JObj ?ps) = Some t" "t \<noteq> []" "JSON_parse number t = Some ?v"
    by blast
  from login_true_state [OF assms(1)] t u
  have st: "user ?st = JObj ?ps" "localStorage ?st tobaku_user = Some t"
    by simp_all
  have d: "distinct (map fst ?ps)"
    by simp
  have r: "user (snd (startup_restore number (mount (localStorage ?st)))) = ?v"
    using st(2) t by (simp add: startup_restore_def restore_try_def mount_def effects)
  have f: "get_prop ?v k = get_prop (user ?st) k" for k
    unfolding st(1) by (rule get_prop_defined [OF d])
  have e: "?v = user ?st"
    if "list_all (\<lambda>k. get_prop users k \<noteq> JUndefined)
          [str ''id'', str ''name'', str ''username'', str ''role'', str ''created_at'']"
    using userData_defined [OF that] st(1) u by simp
  show ?thesis
    using st(2) t(3) r f e by (intro exI [of _ t] exI [of _ ?v]) simp
qed

theorem login_snapshot_round_trip_witness:
  "fst (login (Resolves (JObj [(str ''id'', JStr (str ''u-1'')), (str ''name'', JStr (str ''Admin'')),
      (str ''username'', JStr (str ''admin'')), (str ''password'', JStr (str ''rahasia'')),
      (str ''role'', JStr (str ''admin'')), (str ''created_at'', JStr (str ''2024-01-01''))]) JNull)
      Accepted (str ''admin'') (str ''rahasia'') (mount Map.empty)) = Normal True \<and>
   list_all (\<lambda>k. get_prop (JObj [(str ''id'', JStr (str ''u-1'')), (str ''name'', JStr (str ''Admin'')),
      (str ''username'', JStr (str ''admin'')), (str ''password'', JStr (str ''rahasia'')),
      (str ''role'', JStr (str ''admin'')), (str ''created_at'', JStr (str ''2024-01-01''))]) k = JUndefined \<or>
       is_json (\<lambda>n. n) (get_prop (JObj [(str ''id'', JStr (str ''u-1'')), (str ''name'', JStr (str ''Admin'')),
      (str ''username'', JStr (str ''admin'')), (str ''password'', JStr (str ''rahasia'')),
      (str ''role'', JStr (str ''admin'')), (str ''created_at'', JStr (str ''2024-01-01''))]) k))
     [str ''id'', str ''name'', str ''username'', str ''role'', str ''created_at''] \<and>
   list_all (\<lambda>k. get_prop (JObj [(str ''id'', JStr (str ''u-1'')), (str ''name'', JStr (str ''Admin'')),
      (str ''username'', JStr (str ''admin'')), (str ''password'', JStr (str ''rahasia'')),
      (str ''role'', JStr (str ''admin'')), (str ''created_at'', JStr (str ''2024-01-01''))]) k \<noteq> JUndefined)
     [str ''id'', str ''name'', str ''username'', str ''role'', str ''created_at''] \<and>
   user (snd (login (Resolves (JObj [(str ''id'', JStr (str ''u-1'')), (str ''name'', JStr (str ''Admin'')),
      (str ''username'', JStr (str ''admin'')), (str ''password'', JStr (str ''rahasia'')),
      (str ''role'', JStr (str ''admin'')), (str ''created_at'', JStr (str ''2024-01-01''))]) JNull)
      Accepted (str ''admin'') (str ''rahasia'') (mount Map.empty))) =
     JObj [(str ''id'', JStr (str ''u-1'')), (str ''name'', JStr (str ''Admin'')),
      (str ''username'', JStr (str ''admin'')), (str ''role'', JStr (str ''admin'')),
      (str ''created_at'', JStr (str ''2024-01-01''))] \<and>
   user (snd (startup_restore (\<lambda>n. n) (mount (localStorage
     (snd (login (Resolves (JObj [(str ''id'', JStr (str ''u-1'')), (str ''name'', JStr (str ''Admin'')),
      (str ''username'', JStr (str ''admin'')), (str ''password'', JStr (str ''rahasia'')),
      (str ''role'', JStr (str ''admin'')), (str ''created_at'', JStr (str ''2024-01-01''))]) JNull)
      Accepted (str ''admin'') (str ''rahasia'') (mount Map.empty))))))) =
     JObj [(str ''id'', JStr (str ''u-1'')), (str ''name'', JStr (str ''Admin'')),
      (str ''username'', JStr (str ''admin'')), (str ''role'', JStr (str ''admin'')),
      (str ''created_at'', JStr (str ''2024-01-01''))]"
proof -
  let ?row = "(JObj [(str ''id'', JStr (str ''u-1'')), (str ''name'', JStr (str ''Admin'')),
      (str ''username'', JStr (str ''admin'')), (str ''password'', JStr (str ''rahasia'')),
      (str ''role'', JStr (str ''admin'')), (str ''created_at'', JStr (str ''2024-01-01''))])"
  let ?login = "login (Resolves ?row JNull) Accepted (str ''admin'') (str ''rahasia'')
      (mount Map.empty)"
  have ok: "fst ?login = Normal True"
    by (simp add: login_def login_try_def effects userData_def Let_def)
  have js: "list_all (\<lambda>k. get_prop ?row k = JUndefined \<or> is_json (\<lambda>n. n) (get_prop ?row k))
     [str ''id'', str ''name'', str ''username'', str ''role'', str ''created_at'']"
    by simp
  have df: "list_all (\<lambda>k. get_prop ?row k \<noteq> JUndefined)
     [str ''id'', str ''name'', str ''username'', str ''role'', str ''created_at'']"
    by simp
  have u: "user (snd ?login) = JObj [(str ''id'', JStr (str ''u-1'')), (str ''name'', JStr (str ''Admin'')),
      (str ''username'', JStr (str ''admin'')), (str ''role'', JStr (str ''admin'')),
      (str ''created_at'', JStr (str ''2024-01-01''))]"
    by (simp add: login_def login_try_def effects Let_def userData_def)
  from login_snapshot_round_trip [OF ok js] df u show ?thesis
    using ok js by auto
qed

text \<open>
  C8 as stated fails on a row whose \<^verbatim>\<open>id\<close> is the number \<^verbatim>\<open>Infinity\<close>, which is what the JSON
  text \<^verbatim>\<open>1e400\<close> decodes to: the login resolves \<^verbatim>\<open>true\<close>, \<^verbatim>\<open>JSON.stringify\<close> writes \<^verbatim>\<open>null\<close>
  for it, and the restored user has the \<^verbatim>\<open>id\<close> \<^verbatim>\<open>null\<close>.
\<close>

theorem login_snapshot_loses_infinity:
  "fst (login (Resolves (JObj [(str ''id'', JNum (str ''Infinity'')), (str ''name'', JStr (str ''Eve'')),
      (str ''username'', JStr (str ''eve'')), (str ''password'', JStr (str ''pw'')),
      (str ''role'', JStr (str ''staff'')), (str ''created_at'', JStr (str ''2024-01-01''))]) JNull)
      Accepted (str ''eve'') (str ''pw'') (mount Map.empty)) = Normal True \<and>
   get_prop (user (snd (login (Resolves (JObj [(str ''id'', JNum (str ''Infinity'')), (str ''name'', JStr (str ''Eve'')),
      (str ''username'', JStr (str ''eve'')), (str ''password'', JStr (str ''pw'')),
      (str ''role'', JStr (str ''staff'')), (str ''created_at'', JStr (str ''2024-01-01''))]) JNull)
      Accepted (str ''eve'') (str ''pw'') (mount Map.empty)))) (str ''id'') = JNum (str ''Infinity'') \<and>
   localStorage (snd (login (Resolves (JObj [(str ''id'', JNum (str ''Infinity'')), (str ''name'', JStr (str ''Eve'')),
      (str ''username'', JStr (str ''eve'')), (str ''password'', JStr (str ''pw'')),
      (str ''role'', JStr (str ''staff'')), (str ''created_at'', JStr (str ''2024-01-01''))]) JNull)
      Accepted (str ''eve'') (str ''pw'') (mount Map.empty))) tobaku_user =
     Some (str ''{\"id\":null,\"name\":\"Eve\",\"username\":\"eve\",\"role\":\"staff\",\"created_at\":\"2024-01-01\"}'') \<and>
   get_prop (user (snd (startup_restore (\<lambda>n. n) (mount (localStorage
     (snd (login (Resolves (JObj [(str ''id'', JNum (str ''Infinity'')), (str ''name'', JStr (str ''Eve'')),
      (str ''username'', JStr (str ''eve'')), (str ''password'', JStr (str ''pw'')),
      (str ''role'', JStr (str ''staff'')), (str ''created_at'', JStr (str ''2024-01-01''))]) JNull)
      Accepted (str ''eve'') (str ''pw'') (mount Map.empty)))))))) (str ''id'') = JNull"
  by (simp add: login_def login_try_def effects userData_def Let_def mount_def
        JSON_stringify_def QuoteJSONString_def quote_unit_def is_high_surrogate_def is_low_surrogate_def
        non_finite_def startup_restore_def restore_try_def parse_eval)

subsection \<open>signup\<close>

text \<open>
  C5: when the query for the username finds a row, \<^verbatim>\<open>signup\<close> resolves \<^verbatim>\<open>false\<close> and the
  only request it has sent is that query: no insert. This holds in both sources.
\<close>

theorem signup_existing_username:
  assumes "truthy existingUser"
  shows "fst (signup (Resolves existingUser checkError) inserted d st) = Normal False \<and>
         requests (snd (signup (Resolves existingUser checkError) inserted d st)) =
           requests st @ [SelectSingle (str ''username'') (username d)] \<and>
         fst (signup_part_000 (Resolves existingUser checkError) inserted d st) = Normal False \<and>
         requests (snd (signup_part_000 (Resolves existingUser checkError) inserted d st)) =
           requests st @ [SelectSingle (str ''username'') (username d)]"
  using assms
  by (simp add: signup_def signup_try_def signup_part_000_def signup_try_part_000_def
                effects Let_def)

theorem signup_existing_username_witness:
  "truthy (JObj [(str ''username'', JStr (str ''dup''))]) \<and>
   fst (signup (Resolves (JObj [(str ''username'', JStr (str ''dup''))]) JNull) (Resolves JNull JNull)
          \<lparr>name = str ''Dup'', username = str ''dup'', password = str ''x'', role = Staff\<rparr>
          (mount Map.empty)) = Normal False \<and>
   requests (snd (signup (Resolves (JObj [(str ''username'', JStr (str ''dup''))]) JNull)
          (Resolves JNull JNull)
          \<lparr>name = str ''Dup'', username = str ''dup'', password = str ''x'', role = Staff\<rparr>
          (mount Map.empty))) = [SelectSingle (str ''username'') (str ''dup'')]"
proof -
  have h: "truthy (JObj [(str ''username'', JStr (str ''dup''))])" by simp
  show ?thesis
    using h signup_existing_username [OF h, where checkError = JNull
      and inserted = "Resolves JNull JNull"
      and d = "\<lparr>name = str ''Dup'', username = str ''dup'', password = str ''x'', role = Staff\<rparr>"
      and st = "mount Map.empty"]
    by (simp add: mount_def del: str_simps)
qed

text \<open>
  C6: whatever the store answers, \<^verbatim>\<open>signup\<close> leaves the current user and \<^verbatim>\<open>localStorage\<close>
  as they were before the call. This holds in both sources.
\<close>

theorem signup_keeps_session:
  "user (snd (signup existing inserted d st)) = user st \<and>
   localStorage (snd (signup existing inserted d st)) = localStorage st \<and>
   user (snd (signup_part_000 existing inserted d st)) = user st \<and>
   localStorage (snd (signup_part_000 existing inserted d st)) = localStorage st"
  by (simp add: signup_def signup_try_def signup_part_000_def signup_try_part_000_def
                effects Let_def
           split: response.split)

subsection \<open>logout\<close>

text \<open>
  C7: \<^verbatim>\<open>logout\<close> returns normally from every state, sets the current user to \<^verbatim>\<open>null\<close>,
  removes the key \<^verbatim>\<open>tobaku_user\<close> from \<^verbatim>\<open>localStorage\<close> and sends no request.
\<close>

theorem logout_clears_session:
  "fst (logout st) = Normal () \<and>
   user (snd (logout st)) = JNull \<and>
   localStorage (snd (logout st)) = (localStorage st)(tobaku_user := None) \<and>
   localStorage (snd (logout st)) tobaku_user = None \<and>
   requests (snd (logout st)) = requests st"
  by (simp add: logout_def effects)

subsection \<open>The loading flag\<close>

lemma login_exit:
  "isLoading (snd (login resp w uname pw st)) = False \<and>
   (fst (login resp w uname pw st) = Normal True \<or> fst (login resp w uname pw st) = Normal False)"
  using completion_cases [of "fst (login_try resp w uname pw st)"]
  by (cases "login_try resp w uname pw st") (auto simp add: login_def setIsLoading_def)

lemma login_part_000_exit:
  "isLoading (snd (login_part_000 resp w uname pw st)) = False \<and>
   (fst (login_part_000 resp w uname pw st) = Normal True \<or>
    fst (login_part_000 resp w uname pw st) = Normal False)"
  using completion_cases [of "fst (login_try_part_000 resp w uname pw st)"]
  by (cases "login_try_part_000 resp w uname pw st") (auto simp add: login_part_000_def setIsLoading_def)

lemma signup_exit:
  "isLoading (snd (signup existing inserted d st)) = False \<and>
   (fst (signup existing inserted d st) = Normal True \<or>
    fst (signup existing inserted d st) = Normal False)"
  using completion_cases [of "fst (signup_try existing inserted d st)"]
  by (cases "signup_try existing inserted d st") (auto simp add: signup_def setIsLoading_def)

lemma signup_part_000_exit:
  "isLoading (snd (signup_part_000 existing inserted d st)) = False \<and>
   (fst (signup_part_000 existing inserted d st) = Normal True \<or>
    fst (signup_part_000 existing inserted d st) = Normal False)"
  using completion_cases [of "fst (signup_try_part_000 existing inserted d st)"]
  by (cases "signup_try_part_000 existing inserted d st")
     (auto simp add: signup_part_000_def setIsLoading_def)

text \<open>
  C9: every call of \<^verbatim>\<open>login\<close> or \<^verbatim>\<open>signup\<close>, in both sources, whatever the store answers
  (a rejected promise included) and whether or not the browser accepts the write, ends with
  \<^verbatim>\<open>isLoading\<close> false, and it resolves to a boolean.
\<close>

theorem isLoading_reset_on_exit:
  "(isLoading (snd (login resp w uname pw st)) = False \<and>
    (fst (login resp w uname pw st) = Normal True \<or> fst (login resp w uname pw st) = Normal False)) \<and>
   (isLoading (snd (signup existing inserted d st)) = False \<and>
    (fst (signup existing inserted d st) = Normal True \<or>
     fst (signup existing inserted d st) = Normal False)) \<and>
   (isLoading (snd (login_part_000 resp w uname pw st)) = False \<and>
    (fst (login_part_000 resp w uname pw st) = Normal True \<or>
     fst (login_part_000 resp w uname pw st) = Normal False)) \<and>
   (isLoading (snd (signup_part_000 existing inserted d st)) = False \<and>
    (fst (signup_part_000 existing inserted d st) = Normal True \<or>
     fst (signup_part_000 existing inserted d st) = Normal False))"
  using login_exit signup_exit login_part_000_exit signup_part_000_exit by blast

subsection \<open>The invariant of the current user\<close>

lemma valid_user_userData: "valid_user users \<Longrightarrow> valid_user (userData users)"
  by (simp add: valid_user_def userData_def)

lemma signup_user_kept:
  "user (snd (signup existing inserted d st)) = user st"
  "user (snd (signup_part_000 existing inserted d st)) = user st"
  by (simp_all add: signup_def signup_try_def signup_part_000_def signup_try_part_000_def
                effects Let_def
           split: response.split)

lemma startup_restore_user_cases:
  "user (snd (startup_restore number st)) = user st \<or>
   (\<exists>s v. localStorage st tobaku_user = Some s \<and> JSON_parse number s = Some v \<and>
      user (snd (startup_restore number st)) = v)"
  by (simp add: startup_restore_def restore_try_def effects split: option.split)

text \<open>
  C3 (as amended): the invariant of the current user is established by \<^verbatim>\<open>logout\<close> and kept by
  \<^verbatim>\<open>signup\<close>. \<^verbatim>\<open>login\<close> keeps it on every answer of the store, provided that the row is a
  fully populated user with a non-empty username and a role among \<^verbatim>\<open>admin\<close> and \<^verbatim>\<open>staff\<close>
  whenever the lookup answers without error and the password test passes, which is when
  \<^verbatim>\<open>login\<close> sets the current user. The restore effect keeps it when the stored snapshot, if
  it parses, parses to \<^verbatim>\<open>null\<close> or to such a user. Neither the row nor the snapshot is
  validated by the code.
\<close>

theorem session_invariant_preserved:
  "session_invariant (snd (logout st')) \<and>
   (session_invariant st \<longrightarrow>
      session_invariant (snd (signup existing inserted d st)) \<and>
      session_invariant (snd (signup_part_000 existing inserted d st))) \<and>
   (session_invariant st \<and>
    (\<forall>users err. resp = Resolves users err \<and> \<not> truthy err \<and>
       get_prop users (str ''password'') = JStr pw \<longrightarrow> valid_user users) \<longrightarrow>
      session_invariant (snd (login resp w uname pw st))) \<and>
   (session_invariant st \<and>
    (\<forall>users err. resp = Resolves users err \<and> \<not> truthy err \<and> truthy users \<and>
       ((uname = str ''admin'' \<and> pw = str ''admin123'') \<or>
          (uname = str ''staff'' \<and> pw = str ''staff123'')) \<longrightarrow>
       valid_user users) \<longrightarrow>
      session_invariant (snd (login_part_000 resp w uname pw st))) \<and>
   (session_invariant st \<and>
    (\<forall>s v. localStorage st tobaku_user = Some s \<and> JSON_parse number s = Some v \<longrightarrow>
       v = JNull \<or> valid_user v) \<longrightarrow>
      session_invariant (snd (startup_restore number st)))"
proof (intro conjI impI)
  show "session_invariant (snd (logout st'))"
    by (simp add: session_invariant_def logout_def effects)
next
  assume "session_invariant st"
  then show "session_invariant (snd (signup existing inserted d st))"
    using signup_user_kept by (simp add: session_invariant_def)
next
  assume "session_invariant st"
  then show "session_invariant (snd (signup_part_000 existing inserted d st))"
    using signup_user_kept by (simp add: session_invariant_def)
next
  assume "session_invariant st \<and>
    (\<forall>users err. resp = Resolves users err \<and> \<not> truthy err \<and>
       get_prop users (str ''password'') = JStr pw \<longrightarrow> valid_user users)"
  then show "session_invariant (snd (login resp w uname pw st))"
    using login_keeps_session [of resp w uname pw st] valid_user_userData
    by (auto simp add: session_invariant_def simp del: get_prop.simps str_simps)
next
  assume "session_invariant st \<and>
    (\<forall>users err. resp = Resolves users err \<and> \<not> truthy err \<and> truthy users \<and>
       ((uname = str ''admin'' \<and> pw = str ''admin123'') \<or>
          (uname = str ''staff'' \<and> pw = str ''staff123'')) \<longrightarrow>
       valid_user users)"
  then show "session_invariant (snd (login_part_000 resp w uname pw st))"
    using login_part_000_keeps_session [of resp w uname pw st] valid_user_userData
    by (auto simp add: session_invariant_def simp del: get_prop.simps str_simps)
next
  assume "session_invariant st \<and>
    (\<forall>s v. localStorage st tobaku_user = Some s \<and> JSON_parse number s = Some v \<longrightarrow>
       v = JNull \<or> valid_user v)"
  then show "session_invariant (snd (startup_restore number st))"
    using startup_restore_user_cases [of number st]
    by (auto simp add: session_invariant_def)
qed

theorem session_invariant_preserved_witness:
  "session_invariant (mount (Map.empty(tobaku_user \<mapsto>
      str ''{\"id\":\"u-2\",\"name\":\"A\",\"username\":\"a\",\"role\":\"staff\",\"created_at\":\"x\"}''))) \<and>
   valid_user (JObj [(str ''id'', JStr (str ''u-1'')), (str ''name'', JStr (str ''Admin'')),
      (str ''username'', JStr (str ''admin'')), (str ''password'', JStr (str ''rahasia'')),
      (str ''role'', JStr (str ''admin'')), (str ''created_at'', JStr (str ''2024-01-01''))]) \<and>
   user (snd (login (Resolves (JObj [(str ''id'', JStr (str ''u-1'')), (str ''name'', JStr (str ''Admin'')),
      (str ''username'', JStr (str ''admin'')), (str ''password'', JStr (str ''rahasia'')),
      (str ''role'', JStr (str ''admin'')), (str ''created_at'', JStr (str ''2024-01-01''))]) JNull)
      Accepted (str ''admin'') (str ''rahasia'')
      (mount (Map.empty(tobaku_user \<mapsto>
      str ''{\"id\":\"u-2\",\"name\":\"A\",\"username\":\"a\",\"role\":\"staff\",\"created_at\":\"x\"}''))))) \<noteq> JNull \<and>
   session_invariant (snd (login (Resolves (JObj [(str ''id'', JStr (str ''u-1'')), (str ''name'', JStr (str ''Admin'')),
      (str ''username'', JStr (str ''admin'')), (str ''password'', JStr (str ''rahasia'')),
      (str ''role'', JStr (str ''admin'')), (str ''created_at'', JStr (str ''2024-01-01''))]) JNull)
      Accepted (str ''admin'') (str ''rahasia'')
      (mount (Map.empty(tobaku_user \<mapsto>
      str ''{\"id\":\"u-2\",\"name\":\"A\",\"username\":\"a\",\"role\":\"staff\",\"created_at\":\"x\"}''))))) \<and>
   session_invariant (snd (login (Resolves JNull (JObj [(str ''code'', JStr (str ''PGRST116''))]))
      Accepted (str ''nouser'') (str ''x'')
      (mount (Map.empty(tobaku_user \<mapsto>
      str ''{\"id\":\"u-2\",\"name\":\"A\",\"username\":\"a\",\"role\":\"staff\",\"created_at\":\"x\"}''))))) \<and>
   session_invariant (snd (login_part_000 (Resolves (JObj [(str ''id'', JStr (str ''u-1'')), (str ''name'', JStr (str ''Admin'')),
      (str ''username'', JStr (str ''admin'')), (str ''password'', JStr (str ''rahasia'')),
      (str ''role'', JStr (str ''admin'')), (str ''created_at'', JStr (str ''2024-01-01''))]) JNull)
      Accepted (str ''admin'') (str ''admin123'')
      (mount (Map.empty(tobaku_user \<mapsto>
      str ''{\"id\":\"u-2\",\"name\":\"A\",\"username\":\"a\",\"role\":\"staff\",\"created_at\":\"x\"}''))))) \<and>
   user (snd (startup_restore (\<lambda>n. n) (mount (Map.empty(tobaku_user \<mapsto>
      str ''{\"id\":\"u-2\",\"name\":\"A\",\"username\":\"a\",\"role\":\"staff\",\"created_at\":\"x\"}''))))) \<noteq> JNull \<and>
   session_invariant (snd (startup_restore (\<lambda>n. n) (mount (Map.empty(tobaku_user \<mapsto>
      str ''{\"id\":\"u-2\",\"name\":\"A\",\"username\":\"a\",\"role\":\"staff\",\"created_at\":\"x\"}'')))))"
proof -
  let ?snap = "str ''{\"id\":\"u-2\",\"name\":\"A\",\"username\":\"a\",\"role\":\"staff\",\"created_at\":\"x\"}''"
  let ?st = "mount (Map.empty(tobaku_user \<mapsto> ?snap))"
  let ?row = "(JObj [(str ''id'', JStr (str ''u-1'')), (str ''name'', JStr (str ''Admin'')),
      (str ''username'', JStr (str ''admin'')), (str ''password'', JStr (str ''rahasia'')),
      (str ''role'', JStr (str ''admin'')), (str ''created_at'', JStr (str ''2024-01-01''))])"
  let ?notfound = "(Resolves JNull (JObj [(str ''code'', JStr (str ''PGRST116''))]))"
  have inv: "session_invariant ?st"
    by (simp add: session_invariant_def mount_def)
  have row: "valid_user ?row"
    by (simp add: valid_user_def)
  have h1: "\<forall>users err. Resolves ?row JNull = Resolves users err \<and> \<not> truthy err \<and>
       get_prop users (str ''password'') = JStr (str ''rahasia'') \<longrightarrow> valid_user users"
    using row by auto
  have h2: "\<forall>users err. ?notfound = Resolves users err \<and> \<not> truthy err \<and>
       get_prop users (str ''password'') = JStr (str ''x'') \<longrightarrow> valid_user users"
    by auto
  have h3: "\<forall>users err. Resolves ?row JNull = Resolves users err \<and> \<not> truthy err \<and>
       truthy users \<and>
       ((str ''admin'' = str ''admin'' \<and> str ''admin123'' = str ''admin123'') \<or>
        (str ''admin'' = str ''staff'' \<and> str ''admin123'' = str ''staff123'')) \<longrightarrow>
       valid_user users"
    using row by auto
  have parsed: "JSON_parse (\<lambda>n. n) ?snap =
      Some (JObj [(str ''id'', JStr (str ''u-2'')), (str ''name'', JStr (str ''A'')),
      (str ''username'', JStr (str ''a'')), (str ''role'', JStr (str ''staff'')),
      (str ''created_at'', JStr (str ''x''))])"
    by (simp add: parse_eval)
  have snap: "\<forall>s v. localStorage ?st tobaku_user = Some s \<and> JSON_parse (\<lambda>n. n) s = Some v \<longrightarrow>
       v = JNull \<or> valid_user v"
    using parsed by (simp add: mount_def valid_user_def)
  have u1: "user (snd (login (Resolves ?row JNull) Accepted (str ''admin'') (str ''rahasia'') ?st))
      \<noteq> JNull"
    by (simp add: login_def login_try_def effects userData_def Let_def)
  have u2: "user (snd (startup_restore (\<lambda>n. n) ?st)) \<noteq> JNull"
    using parsed by (simp add: startup_restore_def restore_try_def effects mount_def)
  have a: "session_invariant (snd (login (Resolves ?row JNull) Accepted (str ''admin'')
      (str ''rahasia'') ?st))"
    using inv h1 session_invariant_preserved [where st = ?st and resp = "Resolves ?row JNull"
        and uname = "str ''admin''" and pw = "str ''rahasia''" and w = Accepted]
    by blast
  have b: "session_invariant (snd (login ?notfound Accepted (str ''nouser'') (str ''x'') ?st))"
    using inv h2 session_invariant_preserved [where st = ?st and resp = ?notfound
        and uname = "str ''nouser''" and pw = "str ''x''" and w = Accepted]
    by blast
  have c: "session_invariant (snd (login_part_000 (Resolves ?row JNull) Accepted (str ''admin'')
      (str ''admin123'') ?st))"
    using inv h3 session_invariant_preserved [where st = ?st and resp = "Resolves ?row JNull"
        and uname = "str ''admin''" and pw = "str ''admin123''" and w = Accepted]
    by blast
  have d: "session_invariant (snd (startup_restore (\<lambda>n. n) ?st))"
    using inv snap session_invariant_preserved [where st = ?st and number = "\<lambda>n. n"]
    by blast
  show ?thesis
    using inv row u1 u2 a b c d by simp
qed

text \<open>
  C3 as stated fails: a row whose role is \<^verbatim>\<open>owner\<close> becomes the current user after a
  login with its password, and a snapshot with an empty username and the role \<^verbatim>\<open>root\<close>
  becomes the current user at startup.
\<close>

theorem session_invariant_broken:
  "session_invariant (mount Map.empty) \<and>
   fst (login (Resolves (JObj [(str ''id'', JStr (str ''u-7'')), (str ''name'', JStr (str ''Eve'')),
      (str ''username'', JStr (str ''eve'')), (str ''password'', JStr (str ''pw'')),
      (str ''role'', JStr (str ''owner'')), (str ''created_at'', JStr (str ''2024-01-01''))]) JNull)
      Accepted (str ''eve'') (str ''pw'') (mount Map.empty)) = Normal True \<and>
   \<not> session_invariant (snd (login (Resolves (JObj [(str ''id'', JStr (str ''u-7'')), (str ''name'', JStr (str ''Eve'')),
      (str ''username'', JStr (str ''eve'')), (str ''password'', JStr (str ''pw'')),
      (str ''role'', JStr (str ''owner'')), (str ''created_at'', JStr (str ''2024-01-01''))]) JNull)
      Accepted (str ''eve'') (str ''pw'') (mount Map.empty))) \<and>
   \<not> session_invariant (snd (startup_restore (\<lambda>n. n)
       (mount (Map.empty(tobaku_user \<mapsto> str ''{\"username\":\"\",\"role\":\"root\"}'')))))"
  by (simp add: session_invariant_def valid_user_def mount_def login_def login_try_def effects
        userData_def Let_def startup_restore_def restore_try_def parse_eval)

subsection \<open>login of the variant\<close>

text \<open>
  C10: in the variant \<^verbatim>\<open>part_000\<close>, \<^verbatim>\<open>login\<close> resolves \<^verbatim>\<open>true\<close> exactly when the lookup
  answered without error with a truthy row, the arguments are the pair \<^verbatim>\<open>admin\<close>,
  \<^verbatim>\<open>admin123\<close> or the pair \<^verbatim>\<open>staff\<close>, \<^verbatim>\<open>staff123\<close>, and the browser accepts the write of the
  snapshot. The outcome depends on the row through its truthiness only, so its
  \<^verbatim>\<open>password\<close> field is never consulted; for any other username a login with the stored
  password of the row resolves \<^verbatim>\<open>false\<close>.
\<close>

theorem login_part_000_fixed_pairs:
  "(fst (login_part_000 resp w uname pw st) = Normal True \<longleftrightarrow>
      (\<exists>users err. resp = Resolves users err \<and> \<not> truthy err \<and> truthy users) \<and>
      ((uname = str ''admin'' \<and> pw = str ''admin123'') \<or>
       (uname = str ''staff'' \<and> pw = str ''staff123'')) \<and>
      w = Accepted) \<and>
   (truthy users = truthy users' \<longrightarrow>
      fst (login_part_000 (Resolves users err) w uname pw st) =
      fst (login_part_000 (Resolves users' err) w uname pw st)) \<and>
   (uname \<noteq> str ''admin'' \<and> uname \<noteq> str ''staff'' \<and>
    get_prop (JObj row) (str ''password'') = JStr pw \<longrightarrow>
      fst (login_part_000 (Resolves (JObj row) JNull) w uname pw st) = Normal False)"
  by (cases resp; cases w)
     (auto simp add: login_part_000_def login_try_part_000_def effects Let_def
           simp del: get_prop.simps str_simps)

theorem login_part_000_fixed_pairs_witness:
  "str ''bob'' \<noteq> str ''admin'' \<and> str ''bob'' \<noteq> str ''staff'' \<and>
   get_prop (JObj [(str ''username'', JStr (str ''bob'')), (str ''password'', JStr (str ''s3cret''))])
     (str ''password'') = JStr (str ''s3cret'') \<and>
   fst (login_part_000
     (Resolves (JObj [(str ''username'', JStr (str ''bob'')), (str ''password'', JStr (str ''s3cret''))]) JNull)
     Accepted (str ''bob'') (str ''s3cret'') (mount Map.empty)) = Normal False \<and>
   fst (login
     (Resolves (JObj [(str ''username'', JStr (str ''bob'')), (str ''password'', JStr (str ''s3cret''))]) JNull)
     Accepted (str ''bob'') (str ''s3cret'') (mount Map.empty)) = Normal True"
  using login_part_000_fixed_pairs [where resp = "Rejects JNull" and uname = "str ''bob''"
     and pw = "str ''s3cret''" and st = "mount Map.empty" and users = JNull and users' = JNull
     and w = Accepted
     and row = "[(str ''username'', JStr (str ''bob'')), (str ''password'', JStr (str ''s3cret''))]"]
  by (simp add: login_def login_try_def effects userData_def Let_def)

end
